theory Spec2Isabelle
  imports Complex_Main
begin

chapter \<open>The programs\<close>

section \<open>Data source context (frontend/src/context/DataSourceContext.tsx)\<close>

text \<open>
  The browser's localStorage is a dictionary from keys to strings; \<open>getItem\<close> of an
  absent key is \<open>null\<close>, here \<open>None\<close>. At run time a \<open>DataSource\<close> is a plain string:
  the TypeScript type \<open>"live" | "mock"\<close> is erased, so the model keeps strings and
  the two-value property is something to prove.
\<close>

type_synonym local_storage = "string \<rightharpoonup> string"

definition STORAGE_KEY :: string where
  "STORAGE_KEY = ''marketview_data_source''"

text \<open>The initialiser of \<open>useState\<close> in \<open>DataSourceProvider\<close>.\<close>

definition initial_source :: "local_storage \<Rightarrow> string" where
  "initial_source ls =
     (let stored = ls STORAGE_KEY in if stored = Some ''mock'' then ''mock'' else ''live'')"

record provider_state =
  source :: string
  storage :: local_storage

text \<open>
  The effect \<open>localStorage.setItem(STORAGE_KEY, source)\<close> runs after the first render
  and after every change of \<open>source\<close>.
\<close>

definition persist :: "provider_state \<Rightarrow> provider_state" where
  "persist st = st\<lparr>storage := (storage st)(STORAGE_KEY \<mapsto> source st)\<rparr>"

definition mount :: "local_storage \<Rightarrow> provider_state" where
  "mount ls = persist \<lparr>source = initial_source ls, storage = ls\<rparr>"

definition setSource :: "string \<Rightarrow> provider_state \<Rightarrow> provider_state" where
  "setSource s st = persist (st\<lparr>source := s\<rparr>)"

text \<open>
  The only callers of \<open>setSource\<close> are the two buttons of the sidebar
  (components/Layout): \<open>setSource("live")\<close> and \<open>setSource("mock")\<close>.
\<close>

datatype click = ClickLive | ClickMock

fun on_click :: "click \<Rightarrow> provider_state \<Rightarrow> provider_state" where
  "on_click ClickLive st = setSource ''live'' st"
| "on_click ClickMock st = setSource ''mock'' st"

fun clicks :: "click list \<Rightarrow> provider_state \<Rightarrow> provider_state" where
  "clicks [] st = st"
| "clicks (c # cs) st = clicks cs (on_click c st)"

text \<open>\<open>useDataSource().source\<close>: what every fetch passes as its \<open>source\<close> parameter.\<close>

definition useDataSource :: "provider_state \<Rightarrow> string" where
  "useDataSource st = source st"

definition is_data_source :: "string \<Rightarrow> bool" where
  "is_data_source s = (s = ''live'' \<or> s = ''mock'')"

section \<open>Offline report generator (frontend/src/pages/Reports.tsx)\<close>

text \<open>
  JavaScript strings are modelled as byte strings. A template literal is written as the
  list of its lines (\<open>base_lines\<close>, \<open>sentiment_lines\<close>, ...) and is the text of these
  lines joined by the line feed (\<open>text_lines\<close>), so that the Isabelle text can be
  compared with the source line by line. The em dash of the source is its three UTF-8
  bytes. A literal that starts with a blank line has the empty string as its first line.
\<close>

definition newline :: char where
  "newline = CHR 0x0A"

definition em_dash :: string where
  "em_dash = [CHR 0xE2, CHR 0x80, CHR 0x94]"

fun text_lines :: "string list \<Rightarrow> string" where
  "text_lines [] = []"
| "text_lines [l] = l"
| "text_lines (l # m # ls) = l @ newline # text_lines (m # ls)"

text \<open>\<open>levelLabels\<close> is a \<open>Record<number, string>\<close>; a missing key reads \<open>undefined\<close>.\<close>

definition levelLabels :: "nat \<rightharpoonup> string" where
  "levelLabels = [1 \<mapsto> ''Executive'', 2 \<mapsto> ''Standard'', 3 \<mapsto> ''Deep Dive'']"

text \<open>How a template literal renders a possibly undefined string.\<close>

fun template_str :: "string option \<Rightarrow> string" where
  "template_str None = ''undefined''"
| "template_str (Some s) = s"

text \<open>
  \<open>generateMockReport\<close> reads the clock: \<open>timestamp\<close> is the value of
  \<open>new Date().toLocaleString()\<close> at the call, an explicit argument here.
\<close>

definition base_lines :: "string \<Rightarrow> nat \<Rightarrow> string list" where
  "base_lines timestamp level = [
      ''# MarketView '' @ template_str (levelLabels level) @ '' Report'',
      ''> Generated '' @ timestamp @ '' (offline mock)'',
      '''',
      ''## Market Pulse'',
      ''**Regime:** Risk-On '' @ em_dash @ '' Moderate confidence (72%)'',
      ''- Equities trending higher on strong earnings'',
      ''- VIX subdued below 17, signaling low implied vol'',
      ''- Credit spreads remain tight'',
      '''',
      ''## Key Metrics'',
      ''| Asset       | Price      | Change  |'',
      ''|-------------|-----------|---------|'',
      ''| S&P 500     | 5,924.02  | +0.24%  |'',
      ''| NASDAQ      | 19,223.84 | +0.56%  |'',
      ''| VIX         | 16.32     | -3.18%  |'',
      ''| 10Y UST     | 4.28%     | +2 bps  |'',
      ''| Bitcoin     | $97,432   | +1.87%  |'',
      ''| Gold        | $2,918    | +0.42%  |'',
      ''| DXY         | 106.82    | -0.15%  |'',
      '''',
      ''## Macro Overview'',
      ''- **Inflation:** CPI at 2.8% YoY, trending toward target'',
      ''- **Growth:** GDP tracking 2.3% annualized'',
      ''- **Labor:** Unemployment steady at 3.9%, initial claims benign'',
      ''- **Policy:** Fed Funds at 5.33%, market pricing 2 cuts in 2025''
    ]"

definition base :: "string \<Rightarrow> nat \<Rightarrow> string" where
  "base timestamp level = text_lines (base_lines timestamp level)"

definition sentiment_lines :: "string list" where
  "sentiment_lines = [
      '''',
      '''',
      ''## Sentiment Analysis'',
      ''**Overall: Bullish** (score: +0.28, bullish ratio: 63%)'',
      ''*842 posts analyzed across 6 subreddits (reddit)*'',
      '''',
      ''Retail sentiment across financial Reddit is **bullish** with an overall score of +0.28'',
      ''and 63% of posts leaning bullish. Most-discussed tickers: $NVDA, $TSLA, $AAPL, $SPY, $BTC.'',
      ''r/wallstreetbets is the most bullish community (+0.41). r/investing tilts most bearish (-0.08).'',
      '''',
      ''### Trending Tickers'',
      ''| Ticker | Mentions |'',
      ''|--------|----------|'',
      ''| $NVDA | 127 |'',
      ''| $TSLA | 98 |'',
      ''| $AAPL | 76 |'',
      ''| $SPY | 61 |'',
      ''| $BTC | 55 |'',
      '''',
      ''### Subreddit Breakdown'',
      ''| Subreddit | Score | Bullish | Posts | Top Ticker |'',
      ''|-----------|-------|---------|-------|------------|'',
      ''| r/wallstreetbets | +0.41 | 71% | 312 | $NVDA |'',
      ''| r/stocks | +0.22 | 58% | 187 | $AAPL |'',
      ''| r/cryptocurrency | +0.35 | 67% | 143 | $BTC |'',
      ''| r/investing | -0.08 | 42% | 118 | $SPY |'',
      ''| r/options | +0.18 | 55% | 82 | $TSLA |''
    ]"

definition sentiment :: string where
  "sentiment = text_lines sentiment_lines"

definition standard_lines :: "string list" where
  "standard_lines = [
      '''',
      '''',
      ''## Asset Class Breakdown'',
      '''',
      ''### Equities'',
      ''US large caps leading with tech outperformance. Breadth improving as small caps'',
      ''recover from January drawdown. Global indices mixed '' @ em_dash @ '' Europe strong on ECB pause,'',
      ''Asia-Pacific lagging on China property concerns.'',
      '''',
      ''### Fixed Income'',
      ''Yield curve remains inverted at -105bps (2s10s). Long end selling off on supply'',
      ''concerns. Credit: HY spreads at 321bps (tight), IG at 89bps. No stress signals.'',
      '''',
      ''### FX'',
      ''Dollar index (DXY) consolidating near 107. EUR/USD testing 1.04 support.'',
      ''USD/JPY volatile around 152 on BoJ intervention fears.'',
      '''',
      ''### Commodities'',
      ''Gold pushing all-time highs on central bank buying. Crude rangebound $68-$74'',
      ''on balanced OPEC+ supply. Copper firming on green transition demand.'',
      '''',
      ''### Crypto'',
      ''Bitcoin holding above $95K, ETF inflows steady. Ethereum lagging at $2,700.'',
      ''Crypto fear/greed index: 68 (Greed).''
    ]"

definition standard :: string where
  "standard = text_lines standard_lines"

definition deep_lines :: "string list" where
  "deep_lines = [
      '''',
      '''',
      ''## Technical Levels'',
      ''| Asset   | Support 1 | Support 2 | Resistance 1 | Resistance 2 | RSI  | Signal |'',
      ''|---------|-----------|-----------|--------------|--------------|------|--------|'',
      ''| SPX     | 5,850     | 5,780     | 5,960        | 6,020        | 58.4 | Neutral|'',
      ''| NASDAQ  | 18,900    | 18,500    | 19,400       | 19,800       | 62.1 | Bullish|'',
      ''| 10Y UST | 4.20%     | 4.10%     | 4.35%        | 4.45%        | 51.2 | Neutral|'',
      ''| Gold    | $2,880    | $2,840    | $2,950       | $3,000       | 67.8 | Bullish|'',
      ''| BTC     | $93,000   | $88,500   | $100,000     | $105,000     | 55.3 | Neutral|'',
      '''',
      ''## Volatility Assessment'',
      ''- VIX at 16.32 '' @ em_dash @ '' 28th percentile (below avg)'',
      ''- MOVE Index: 98.4 '' @ em_dash @ '' rates vol subdued'',
      ''- Skew: moderately elevated, put protection bid intact'',
      '''',
      ''## Correlation Matrix Highlights'',
      ''- SPX / BTC: +0.42 (moderate, rising)'',
      ''- Gold / DXY: -0.78 (strong inverse, as expected)'',
      ''- 10Y / SPX: -0.31 (weak inverse, decoupling)'',
      ''- VIX / Credit HY: +0.65 (risk-off correlation intact)'',
      '''',
      ''## Forward Look'',
      ''### Key Events (Next 7 Days)'',
      ''- **Wed:** FOMC Minutes release'',
      ''- **Thu:** Initial jobless claims, existing home sales'',
      ''- **Fri:** Flash PMIs (US, EU, Japan)'',
      '''',
      ''### Outlier Scenario'',
      ''**Event:** Surprise BoJ rate hike to 0.50%'',
      ''**Probability:** Low (15%)'',
      ''**Impact:** JPY surge, carry trade unwind, equity vol spike'',
      ''**Hedge:** Long JPY calls, short Nikkei futures''
    ]"

definition deep :: string where
  "deep = text_lines deep_lines"

definition generateMockReport :: "string \<Rightarrow> nat \<Rightarrow> string" where
  "generateMockReport timestamp level =
     (if level = 1 then
        base timestamp level @ text_lines ['''', '''', ''---'', ''*End of Executive Summary*'']
      else if level = 2 then
        base timestamp level @ sentiment @ standard
          @ text_lines ['''', '''', ''---'', ''*End of Standard Report*'']
      else
        base timestamp level @ sentiment @ standard @ deep
          @ text_lines ['''', '''', ''---'', ''*End of Deep Dive Report*''])"

text \<open>\<open>split_lines s\<close> is \<open>s.split("\n")\<close>.\<close>

fun split_lines :: "string \<Rightarrow> string list" where
  "split_lines [] = [[]]"
| "split_lines (c # cs) =
     (if c = newline then [] # split_lines cs
      else (case split_lines cs of l # ls \<Rightarrow> (c # l) # ls | [] \<Rightarrow> [[c]]))"

text \<open>
  The sections of a markdown report are told by their headings: the lines that start
  with \<open>## \<close>. The technicals, sentiment and correlations sections are headed
  \<open>## Technical Levels\<close>, \<open>## Sentiment Analysis\<close> and
  \<open>## Correlation Matrix Highlights\<close>.
\<close>

definition headings :: "string \<Rightarrow> string list" where
  "headings report = filter (\<lambda>l. take 3 l = ''## '') (split_lines report)"

definition has_section :: "string \<Rightarrow> string \<Rightarrow> bool" where
  "has_section report heading = (heading \<in> set (headings report))"

text \<open>
  The lines that follow the base block at each level. Every appended literal starts
  with a line feed, which ends the last line before it: its first (empty) line is
  dropped when the literals are read as lists of lines.
\<close>

definition report_tail :: "nat \<Rightarrow> string list" where
  "report_tail level =
     (if level = 1 then ['''', ''---'', ''*End of Executive Summary*'']
      else if level = 2 then
        tl sentiment_lines @ tl standard_lines @ ['''', ''---'', ''*End of Standard Report*'']
      else
        tl sentiment_lines @ tl standard_lines @ tl deep_lines
          @ ['''', ''---'', ''*End of Deep Dive Report*''])"

subsection \<open>Generating a report: \<open>generateReport\<close> (frontend/src/api/client.ts) and \<open>handleGenerate\<close>\<close>

text \<open>The interface \<open>ReportRequest\<close>; an optional field that is left out is \<open>None\<close>.\<close>

record ReportRequest =
  level :: nat
  format :: string
  include_technicals :: "bool option"
  include_sentiment :: "bool option"
  include_correlations :: "bool option"
  include_research :: "bool option"
  assets :: "string list option"
  document_ids :: "string list option"
  title :: "string option"
  llm_provider :: "string option"
  llm_model :: "string option"
  custom_prompt :: "string option"

text \<open>
  The POST to \<open>/api/v1/reports/generate\<close> is the environment: it takes the request and
  the axios timeout in milliseconds and either rejects (network failure, timeout, a
  status outside 2xx) or resolves with the response body. Of the body only \<open>content\<close>
  is read; a \<open>null\<close> body is \<open>None\<close>.
\<close>

datatype axios_error = NetworkError | TimeoutExceeded | BadStatus nat

record generate_result =
  content :: "string option"

type_synonym report_api = "ReportRequest \<Rightarrow> nat \<Rightarrow> axios_error + generate_result option"

text \<open>Truthiness of a \<open>string | undefined\<close>: \<open>undefined\<close> and the empty string are falsy.\<close>

fun truthy :: "string option \<Rightarrow> bool" where
  "truthy None = False"
| "truthy (Some s) = (s \<noteq> [])"

definition generateReport ::
  "report_api \<Rightarrow> ReportRequest \<Rightarrow> axios_error + generate_result option" where
  "generateReport post config =
     (let timeout = (if truthy (llm_provider config) then 120000 else 30000)
      in post config timeout)"

text \<open>
  The state hooks of the \<open>Reports\<close> page that \<open>handleGenerate\<close> reads or writes. The
  hooks \<open>level\<close> and \<open>format\<close> are \<open>st_level\<close> and \<open>st_format\<close> here; the list of past
  reports, which \<open>loadReports\<close> refreshes on its own, is left out.
\<close>

record reports_state =
  st_level :: nat
  st_format :: string
  includeTechnicals :: bool
  includeSentiment :: bool
  includeCorrelations :: bool
  generating :: bool
  generatedContent :: "string option"
  offline :: bool
  selectedLLMProvider :: "string option"
  selectedLLMModel :: "string option"

text \<open>The object literal that \<open>handleGenerate\<close> passes to \<open>generateReport\<close>.\<close>

definition request_of :: "reports_state \<Rightarrow> ReportRequest" where
  "request_of st =
     \<lparr>level = st_level st, format = st_format st,
      include_technicals = Some (includeTechnicals st),
      include_sentiment = Some (includeSentiment st),
      include_correlations = Some (includeCorrelations st),
      include_research = None, assets = None, document_ids = None, title = None,
      llm_provider = selectedLLMProvider st, llm_model = selectedLLMModel st,
      custom_prompt = None\<rparr>"

text \<open>
  \<open>handleGenerate\<close>: the \<open>try\<close> body runs when the call resolves; reading \<open>.content\<close> of
  a \<open>null\<close> body throws inside the \<open>try\<close>, so that case takes the \<open>catch\<close> branch as a
  rejected call does. \<open>finally\<close> clears \<open>generating\<close>. The clock reading that
  \<open>generateMockReport\<close> takes is the argument \<open>timestamp\<close>.
\<close>

definition handleGenerate :: "report_api \<Rightarrow> string \<Rightarrow> reports_state \<Rightarrow> reports_state" where
  "handleGenerate post timestamp st =
     (let st1 = st\<lparr>generating := True, offline := False, generatedContent := None\<rparr>;
          st2 =
            (case generateReport post (request_of st) of
               Inr (Some result) \<Rightarrow>
                 st1\<lparr>generatedContent :=
                   Some (case content result of Some c \<Rightarrow> c
                         | None \<Rightarrow> ''Report generated successfully.'')\<rparr>
             | Inr None \<Rightarrow>
                 st1\<lparr>generatedContent := Some (generateMockReport timestamp (st_level st)),
                     offline := True\<rparr>
             | Inl e \<Rightarrow>
                 st1\<lparr>generatedContent := Some (generateMockReport timestamp (st_level st)),
                     offline := True\<rparr>)
      in st2\<lparr>generating := False\<rparr>)"

section \<open>Composite fetches: calls caught one by one\<close>

text \<open>
  A call either rejects (\<open>Inl\<close>) or resolves with a value (\<open>Inr\<close>).
  \<open>p.catch(() => null)\<close> turns a rejection into \<open>null\<close>, and \<open>Promise.all\<close> over calls
  that are all caught this way resolves with the list of their slots.
\<close>

definition catch_null :: "'e + 'a \<Rightarrow> 'a option" where
  "catch_null p = (case p of Inl e \<Rightarrow> None | Inr v \<Rightarrow> Some v)"

definition promise_all_caught :: "('e + 'a) list \<Rightarrow> 'a option list" where
  "promise_all_caught calls = map catch_null calls"

section \<open>Reddit page (pages/RedditFeed, \<open>fetchReddit\<close>)\<close>

text \<open>
  A response of the Reddit endpoints as \<open>fetchReddit\<close> reads it (\<open>.data\<close> and
  \<open>.source\<close>), and the hooks of the \<open>RedditFeed\<close> page (\<open>sentiment\<close>, \<open>posts\<close>,
  \<open>trending\<close>, \<open>src\<close>, \<open>loading\<close>). A call resolves with the response body, which
  may be \<open>null\<close> (\<open>None\<close>); \<open>if (sentRes)\<close> passes for a response object only.
\<close>

record 'j api_response =
  res_data :: 'j
  res_source :: string

record 'j reddit_state =
  rf_sentiment :: "'j option"
  rf_posts :: "'j option"
  rf_trending :: "'j option"
  rf_src :: string
  rf_loading :: bool

definition fetchReddit ::
  "'e + 'j api_response option \<Rightarrow> 'e + 'j api_response option \<Rightarrow> 'e + 'j api_response option
    \<Rightarrow> 'j reddit_state \<Rightarrow> 'j reddit_state" where
  "fetchReddit getRedditSentiment getRedditPosts getRedditTrending st =
     (let st0 = st\<lparr>rf_loading := True\<rparr>;
          results = promise_all_caught [getRedditSentiment, getRedditPosts, getRedditTrending];
          sentRes = results ! 0;
          postsRes = results ! 1;
          trendRes = results ! 2;
          st1 = (case sentRes of
                   Some (Some r) \<Rightarrow>
                     st0\<lparr>rf_sentiment := Some (res_data r), rf_src := res_source r\<rparr>
                 | _ \<Rightarrow> st0);
          st2 = (case postsRes of
                   Some (Some r) \<Rightarrow> st1\<lparr>rf_posts := Some (res_data r)\<rparr>
                 | _ \<Rightarrow> st1);
          st3 = (case trendRes of
                   Some (Some r) \<Rightarrow> st2\<lparr>rf_trending := Some (res_data r)\<rparr>
                 | _ \<Rightarrow> st2)
      in st3\<lparr>rf_loading := False\<rparr>)"

section \<open>Dashboard (pages/Dashboard, \<open>fetchData\<close>) and the regime labels (components/StatusBadge)\<close>

subsection \<open>The responses that \<open>fetchData\<close> reads\<close>

text \<open>
  The endpoints return untyped JSON. The records hold the fields that \<open>fetchData\<close>
  reads, at the types it uses them at: a number is a real (JSON numbers are finite,
  and comparing them with \<open>3.0\<close>, \<open>1.5\<close> and \<open>1000\<close> is exact), and a field that is
  missing or \<open>null\<close> is \<open>None\<close>, a number as well as an object.

  An instrument of the snapshot (\<open>d.spx\<close>, \<open>d.vix\<close>, \<open>d.dxy\<close>, \<open>d.bitcoin\<close>,
  \<open>d.gold\<close>): the fields read on any of them; \<open>qvalue\<close> is the field \<open>value\<close>.
\<close>

record quote =
  current_price :: "real option"
  change_percent :: "real option"
  price_change_percentage_24h :: "real option"
  price :: "real option"
  qvalue :: "real option"
  rate :: "real option"

text \<open>The yield curve object, of the snapshot (\<open>d.yield_curve\<close>) and of FRED (\<open>ycData.data\<close>).\<close>

record yield_data =
  fed_funds :: "real option"
  treasury_2y :: "real option"
  treasury_5y :: "real option"
  treasury_10y :: "real option"
  treasury_30y :: "real option"

text \<open>
  \<open>snapshotRes.data\<close>, bound to \<open>d\<close> in the source, and the response \<open>snapshotRes\<close>
  with its fields \<open>data\<close> and \<open>source\<close>.
\<close>

record market_data =
  d_spx :: "quote option"
  d_vix :: "quote option"
  d_dxy :: "quote option"
  d_bitcoin :: "quote option"
  d_gold :: "quote option"
  d_yield_curve :: "yield_data option"

record snapshot_response =
  snapshot_data :: "market_data option"
  snapshot_source :: "string option"

text \<open>
  A response of a FRED endpoint, of which \<open>.data\<close> is read; a series of FRED
  (\<open>latest_value\<close>, \<open>pct_change\<close>); the data of the inflation endpoint (\<open>cpi\<close>) and of
  the rates endpoint (\<open>treasury_10y\<close>, here \<open>rates_treasury_10y\<close>).
\<close>

record 'd fred_response =
  data :: "'d option"

record series_summary =
  latest_value :: "real option"
  pct_change :: "real option"

record inflation_data =
  cpi :: "series_summary option"

record rates_data =
  rates_treasury_10y :: "series_summary option"

text \<open>
  The five calls of a refresh, in the order of the source. Each rejects with an axios
  error or resolves with the response body, which may be \<open>null\<close> (\<open>None\<close>). Of the
  body of the health endpoint only its truthiness is read.
\<close>

record 'h api_calls =
  getHealth :: "axios_error + 'h option"
  getMarketSnapshot :: "axios_error + snapshot_response option"
  getFredYieldCurve :: "axios_error + yield_data fred_response option"
  getFredRates :: "axios_error + rates_data fred_response option"
  getFredInflation :: "axios_error + inflation_data fred_response option"

text \<open>\<open>res?.data\<close> on a slot: \<open>undefined\<close> for a \<open>null\<close> slot.\<close>

definition opt_data :: "'d fred_response option option \<Rightarrow> 'd option" where
  "opt_data res = (case res of Some (Some r) \<Rightarrow> data r | _ \<Rightarrow> None)"

subsection \<open>The hooks of the page\<close>

text \<open>
  A metric card (\<open>value\<close>, here \<open>mvalue\<close>, \<open>change\<close>, and \<open>suffix\<close> where the
  object literal has one), the six cards of \<open>metrics\<close>, a point of the yield curve, and
  the hooks of \<open>Dashboard\<close>.
\<close>

record metric =
  mvalue :: string
  change :: "real option"
  suffix :: "string option"

record metric_set =
  spx :: metric
  vix :: metric
  tenYear :: metric
  btc :: metric
  gold :: metric
  dxy :: metric

record curve_point =
  maturity :: string
  yield :: real

record dashboard_state =
  regime :: string
  apiStatus :: string
  dataSource :: string
  yieldCurve :: "curve_point list"
  metrics :: metric_set
  sectors :: "(string \<times> real) list"
  loading :: bool

definition fallbackMetrics :: metric_set where
  "fallbackMetrics =
     \<lparr>spx = \<lparr>mvalue = ''5,924.02'', change = Some 0.24, suffix = None\<rparr>,
      vix = \<lparr>mvalue = ''16.32'', change = Some (- 3.18), suffix = None\<rparr>,
      tenYear = \<lparr>mvalue = ''4.28'', change = Some 0.02, suffix = Some ''%''\<rparr>,
      btc = \<lparr>mvalue = ''97,432'', change = Some 1.87, suffix = None\<rparr>,
      gold = \<lparr>mvalue = ''2,918'', change = Some 0.42, suffix = None\<rparr>,
      dxy = \<lparr>mvalue = ''106.82'', change = Some (- 0.15), suffix = None\<rparr>\<rparr>"

definition fallbackYieldCurve :: "curve_point list" where
  "fallbackYieldCurve =
     [\<lparr>maturity = ''FF'', yield = 5.33\<rparr>, \<lparr>maturity = ''2Y'', yield = 4.26\<rparr>,
      \<lparr>maturity = ''5Y'', yield = 4.13\<rparr>, \<lparr>maturity = ''10Y'', yield = 4.28\<rparr>,
      \<lparr>maturity = ''30Y'', yield = 4.51\<rparr>]"

definition fallbackSectors :: "(string \<times> real) list" where
  "fallbackSectors =
     [(''Tech'', 1.2), (''Health'', 0.8), (''Finance'', 0.3), (''Energy'', - 0.5),
      (''Cons.Disc'', - 0.9), (''Utilities'', 0.1), (''Materials'', - 0.3),
      (''Industrials'', 0.6)]"

text \<open>The initial values of the hooks: the arguments of the \<open>useState\<close> calls.\<close>

definition initial_dashboard :: dashboard_state where
  "initial_dashboard =
     \<lparr>regime = ''risk_on'', apiStatus = ''offline'', dataSource = [],
      yieldCurve = fallbackYieldCurve, metrics = fallbackMetrics, sectors = fallbackSectors,
      loading = True\<rparr>"

text \<open>The keys of \<open>colorMap\<close> under "Market regimes": the closed set of labels.\<close>

definition regime_labels :: "string list" where
  "regime_labels =
     [''goldilocks'', ''risk_on'', ''inflationary_expansion'', ''stagflation'',
      ''deflationary'', ''risk_off'']"

subsection \<open>Formatting numbers\<close>

text \<open>
  The rendering of a number is the JavaScript library and is taken as a parameter:
  \<open>toLocaleString nf x k\<close> is \<open>x.toLocaleString("en-US", {minimumFractionDigits: k,
  maximumFractionDigits: k})\<close> and \<open>toFixed nf x k\<close> is \<open>x.toFixed(k)\<close>.
\<close>

record number_format =
  toLocaleString :: "real \<Rightarrow> nat \<Rightarrow> string"
  toFixed :: "real \<Rightarrow> nat \<Rightarrow> string"

text \<open>
  Calling a method on \<open>null\<close> or \<open>undefined\<close> throws a \<open>TypeError\<close>. This is what
  \<open>formatPrice\<close> does with a missing price: \<open>n.toLocaleString\<close> with \<open>n\<close> not a
  number.
\<close>

datatype js_error = TypeError

definition formatPrice :: "number_format \<Rightarrow> real option \<Rightarrow> js_error + string" where
  "formatPrice nf n =
     (case n of
        None \<Rightarrow> Inl TypeError
      | Some x \<Rightarrow> Inr (toLocaleString nf x (if x \<ge> 1000 then 0 else 2)))"

subsection \<open>The blocks of \<open>fetchData\<close>\<close>

text \<open>
  A block of statements ends normally or throws; either way the calls of the state
  setters made so far stand.
\<close>

datatype 's completion = Normal 's | Thrown 's

text \<open>The hooks after a block, however it ended.\<close>

fun hooks_after :: "'s completion \<Rightarrow> 's" where
  "hooks_after (Normal s) = s"
| "hooks_after (Thrown s) = s"

text \<open>\<open>if (health) setApiStatus("online")\<close>.\<close>

definition health_block :: "'h option option \<Rightarrow> dashboard_state \<Rightarrow> dashboard_state" where
  "health_block health st =
     (case health of
        Some (Some h) \<Rightarrow> st\<lparr>apiStatus := ''online''\<rparr>
      | _ \<Rightarrow> st)"

text \<open>
  The five statements \<open>if (d.spx) { newMetrics.spx = ... }\<close> to
  \<open>if (d.gold) { ... }\<close> on the local \<open>newMetrics\<close>. Those of \<open>spx\<close>, \<open>vix\<close> and
  \<open>bitcoin\<close> pass \<open>current_price\<close> to \<open>formatPrice\<close> as it is; that of \<open>gold\<close>
  passes \<open>price ?? current_price ?? 0\<close>, and that of \<open>dxy\<close> calls \<open>toFixed\<close> behind
  \<open>?.\<close>, with the em dash as the last resort.
\<close>

definition with_spx :: "number_format \<Rightarrow> market_data \<Rightarrow> metric_set \<Rightarrow> js_error + metric_set" where
  "with_spx nf d newMetrics =
     (case d_spx d of
        None \<Rightarrow> Inr newMetrics
      | Some q \<Rightarrow>
          (case formatPrice nf (current_price q) of
             Inl e \<Rightarrow> Inl e
           | Inr v \<Rightarrow>
               Inr (newMetrics\<lparr>spx := \<lparr>mvalue = v, change = change_percent q, suffix = None\<rparr>\<rparr>)))"

definition with_vix :: "number_format \<Rightarrow> market_data \<Rightarrow> metric_set \<Rightarrow> js_error + metric_set" where
  "with_vix nf d newMetrics =
     (case d_vix d of
        None \<Rightarrow> Inr newMetrics
      | Some q \<Rightarrow>
          (case formatPrice nf (current_price q) of
             Inl e \<Rightarrow> Inl e
           | Inr v \<Rightarrow>
               Inr (newMetrics\<lparr>vix := \<lparr>mvalue = v, change = change_percent q, suffix = None\<rparr>\<rparr>)))"

definition with_dxy :: "number_format \<Rightarrow> market_data \<Rightarrow> metric_set \<Rightarrow> metric_set" where
  "with_dxy nf d newMetrics =
     (case d_dxy d of
        None \<Rightarrow> newMetrics
      | Some q \<Rightarrow>
          newMetrics\<lparr>dxy :=
            \<lparr>mvalue =
               (case qvalue q of
                  Some x \<Rightarrow> toFixed nf x 2
                | None \<Rightarrow> (case rate q of Some y \<Rightarrow> toFixed nf y 2 | None \<Rightarrow> em_dash)),
             change = change_percent q, suffix = None\<rparr>\<rparr>)"

definition with_btc :: "number_format \<Rightarrow> market_data \<Rightarrow> metric_set \<Rightarrow> js_error + metric_set" where
  "with_btc nf d newMetrics =
     (case d_bitcoin d of
        None \<Rightarrow> Inr newMetrics
      | Some q \<Rightarrow>
          (case formatPrice nf (current_price q) of
             Inl e \<Rightarrow> Inl e
           | Inr v \<Rightarrow>
               Inr (newMetrics\<lparr>btc :=
                 \<lparr>mvalue = v,
                  change =
                    Some (case price_change_percentage_24h q of
                            Some c \<Rightarrow> c
                          | None \<Rightarrow> (case change_percent q of Some c \<Rightarrow> c | None \<Rightarrow> 0)),
                  suffix = None\<rparr>\<rparr>)))"

definition with_gold :: "number_format \<Rightarrow> market_data \<Rightarrow> metric_set \<Rightarrow> js_error + metric_set" where
  "with_gold nf d newMetrics =
     (case d_gold d of
        None \<Rightarrow> Inr newMetrics
      | Some q \<Rightarrow>
          (case formatPrice nf
                  (Some (case price q of
                           Some x \<Rightarrow> x
                         | None \<Rightarrow> (case current_price q of Some y \<Rightarrow> y | None \<Rightarrow> 0))) of
             Inl e \<Rightarrow> Inl e
           | Inr v \<Rightarrow>
               Inr (newMetrics\<lparr>gold := \<lparr>mvalue = v, change = change_percent q, suffix = None\<rparr>\<rparr>)))"

text \<open>
  \<open>const newMetrics = { ...fallbackMetrics }\<close> and the five statements in the order of
  the source; the first throw ends the sequence.
\<close>

definition new_metrics :: "number_format \<Rightarrow> market_data \<Rightarrow> js_error + metric_set" where
  "new_metrics nf d =
     (case with_spx nf d fallbackMetrics of
        Inl e \<Rightarrow> Inl e
      | Inr m1 \<Rightarrow>
          (case with_vix nf d m1 of
             Inl e \<Rightarrow> Inl e
           | Inr m2 \<Rightarrow>
               (case with_btc nf d (with_dxy nf d m2) of
                  Inl e \<Rightarrow> Inl e
                | Inr m4 \<Rightarrow> with_gold nf d m4)))"

text \<open>
  \<open>[...].filter((p) => p.yield != null)\<close> on the points of a curve, and the guarded
  \<open>if (curve.length > 0) setYieldCurve(curve)\<close>.
\<close>

definition curve_points :: "(string \<times> real option) list \<Rightarrow> curve_point list" where
  "curve_points ps =
     List.map_filter
       (\<lambda>(m, y). case y of None \<Rightarrow> None | Some v \<Rightarrow> Some \<lparr>maturity = m, yield = v\<rparr>) ps"

definition set_curve :: "curve_point list \<Rightarrow> dashboard_state \<Rightarrow> dashboard_state" where
  "set_curve curve st = (if length curve > 0 then st\<lparr>yieldCurve := curve\<rparr> else st)"

definition snapshot_curve :: "yield_data \<Rightarrow> curve_point list" where
  "snapshot_curve yc =
     curve_points
       ([(''FF'', fed_funds yc), (''2Y'', treasury_2y yc)]
        @ (case treasury_5y yc of None \<Rightarrow> [] | Some v \<Rightarrow> [(''5Y'', Some v)])
        @ [(''10Y'', treasury_10y yc), (''30Y'', treasury_30y yc)])"

definition fred_curve :: "yield_data \<Rightarrow> curve_point list" where
  "fred_curve d =
     curve_points
       [(''FF'', fed_funds d), (''2Y'', treasury_2y d), (''10Y'', treasury_10y d),
        (''30Y'', treasury_30y d)]"

text \<open>
  The block "Use snapshot data for metrics": \<open>setDataSource\<close> first, then the local
  \<open>newMetrics\<close>, then the yield curve of the snapshot, then \<open>setMetrics(newMetrics)\<close>.
  When \<open>formatPrice\<close> throws, only \<open>setDataSource\<close> has been called.
\<close>

definition snapshot_block ::
  "number_format \<Rightarrow> snapshot_response option option \<Rightarrow> dashboard_state
     \<Rightarrow> dashboard_state completion" where
  "snapshot_block nf snapshotRes st =
     (case snapshotRes of
        Some (Some res) \<Rightarrow>
          (case snapshot_data res of
             None \<Rightarrow> Normal st
           | Some d \<Rightarrow>
               (let st1 = st\<lparr>dataSource :=
                            (case snapshot_source res of Some s \<Rightarrow> s | None \<Rightarrow> [])\<rparr>
                in case new_metrics nf d of
                     Inl e \<Rightarrow> Thrown st1
                   | Inr newMetrics \<Rightarrow>
                       (let st2 = (case d_yield_curve d of
                                     None \<Rightarrow> st1
                                   | Some yc \<Rightarrow> set_curve (snapshot_curve yc) st1)
                        in Normal (st2\<lparr>metrics := newMetrics\<rparr>))))
      | _ \<Rightarrow> Normal st)"

text \<open>The block "Override yield curve from FRED if available".\<close>

definition fred_yield_block ::
  "yield_data fred_response option option \<Rightarrow> dashboard_state \<Rightarrow> dashboard_state" where
  "fred_yield_block ycData st =
     (case opt_data ycData of
        None \<Rightarrow> st
      | Some d \<Rightarrow> set_curve (fred_curve d) st)"

text \<open>
  The block "Override 10Y from FRED rates": the functional update of \<open>metrics\<close> applies
  to the value set last, which is \<open>newMetrics\<close> when the snapshot block has set it.
\<close>

definition rates_block ::
  "number_format \<Rightarrow> rates_data fred_response option option \<Rightarrow> dashboard_state
     \<Rightarrow> dashboard_state" where
  "rates_block nf ratesData st =
     (case opt_data ratesData of
        None \<Rightarrow> st
      | Some d \<Rightarrow>
          (case rates_treasury_10y d of
             None \<Rightarrow> st
           | Some tenY \<Rightarrow>
               (case latest_value tenY of
                  None \<Rightarrow> st
                | Some v \<Rightarrow>
                    st\<lparr>metrics := (metrics st)\<lparr>tenYear :=
                      \<lparr>mvalue = toFixed nf v 2,
                       change = Some (case pct_change tenY of Some c \<Rightarrow> c | None \<Rightarrow> 0),
                       suffix = Some ''%''\<rparr>\<rparr>\<rparr>)))"

text \<open>The block "Regime from inflation".\<close>

definition regime_block ::
  "inflation_data fred_response option option \<Rightarrow> dashboard_state \<Rightarrow> dashboard_state" where
  "regime_block inflationData st =
     (case opt_data inflationData of
        None \<Rightarrow> st
      | Some d \<Rightarrow>
          (case cpi d of
             None \<Rightarrow> st
           | Some c \<Rightarrow>
               (case latest_value c of
                  None \<Rightarrow> st
                | Some v \<Rightarrow>
                    if v > 3.0 then st\<lparr>regime := ''inflationary_expansion''\<rparr>
                    else if v < 1.5 then st\<lparr>regime := ''deflationary''\<rparr>
                    else st\<lparr>regime := ''goldilocks''\<rparr>)))"

subsection \<open>\<open>fetchData\<close>\<close>

text \<open>
  The body of the \<open>try\<close> after the \<open>await\<close>: the five blocks in the order of the
  source. A throw in the snapshot block, the only one that can throw, skips the three
  blocks after it.
\<close>

definition try_body ::
  "number_format \<Rightarrow> 'h option option \<Rightarrow> snapshot_response option option
     \<Rightarrow> yield_data fred_response option option \<Rightarrow> rates_data fred_response option option
     \<Rightarrow> inflation_data fred_response option option \<Rightarrow> dashboard_state
     \<Rightarrow> dashboard_state completion" where
  "try_body nf health snapshotRes ycData ratesData inflationData st =
     (case snapshot_block nf snapshotRes (health_block health st) of
        Thrown st1 \<Rightarrow> Thrown st1
      | Normal st1 \<Rightarrow>
          Normal (regime_block inflationData
                    (rates_block nf ratesData (fred_yield_block ycData st1))))"

text \<open>
  \<open>fetchData\<close>: \<open>setLoading(true)\<close>, the five calls caught one by one, the \<open>try\<close>
  body, the empty \<open>catch\<close> ("keep fallback data"), and \<open>setLoading(false)\<close> in
  \<open>finally\<close>. The result is the value of the hooks afterwards.
\<close>

definition fetchData :: "number_format \<Rightarrow> 'h api_calls \<Rightarrow> dashboard_state \<Rightarrow> dashboard_state" where
  "fetchData nf calls st =
     (let st0 = st\<lparr>loading := True\<rparr>;
          health = catch_null (getHealth calls);
          snapshotRes = catch_null (getMarketSnapshot calls);
          ycData = catch_null (getFredYieldCurve calls);
          ratesData = catch_null (getFredRates calls);
          inflationData = catch_null (getFredInflation calls);
          st1 = hooks_after (try_body nf health snapshotRes ycData ratesData inflationData st0)
      in st1\<lparr>loading := False\<rparr>)"

text \<open>One refresh after the other (\<open>useAutoRefresh\<close> calls \<open>fetchData\<close> again).\<close>

fun refreshes :: "number_format \<Rightarrow> 'h api_calls list \<Rightarrow> dashboard_state \<Rightarrow> dashboard_state" where
  "refreshes nf [] st = st"
| "refreshes nf (calls # rest) st = refreshes nf rest (fetchData nf calls st)"

subsection \<open>What a refresh reads\<close>

text \<open>The CPI reading that the regime block finds in the slot of the inflation call, if any.\<close>

definition cpi_reading :: "inflation_data fred_response option option \<Rightarrow> real option" where
  "cpi_reading inflationData =
     Option.bind (opt_data inflationData) (\<lambda>d. Option.bind (cpi d) latest_value)"

text \<open>
  An instrument that is present without a \<open>current_price\<close>, and the snapshots in which
  \<open>spx\<close>, \<open>vix\<close> or \<open>bitcoin\<close> is one: those on which \<open>formatPrice\<close> is called with a
  missing price.
\<close>

definition unpriced :: "quote option \<Rightarrow> bool" where
  "unpriced q = (case q of None \<Rightarrow> False | Some q' \<Rightarrow> current_price q' = None)"

definition missing_price :: "snapshot_response option option \<Rightarrow> bool" where
  "missing_price snapshotRes =
     (case snapshotRes of
        Some (Some res) \<Rightarrow>
          (case snapshot_data res of
             None \<Rightarrow> False
           | Some d \<Rightarrow> unpriced (d_spx d) \<or> unpriced (d_vix d) \<or> unpriced (d_bitcoin d))
      | _ \<Rightarrow> False)"

text \<open>
  Renderings of the numbers of the examples, as JavaScript prints them; any other
  number is not rendered by this table.
\<close>

definition example_format :: number_format where
  "example_format =
     \<lparr>toLocaleString = (\<lambda>x k. if x = 5924.02 \<and> k = 0 then ''5,924'' else ''?''),
      toFixed = (\<lambda>x k. if x = 4.5 \<and> k = 2 then ''4.50'' else ''?'')\<rparr>"

text \<open>
  Responses for the examples: every call rejected; a snapshot with the S&P 500 and a
  yield curve; the same snapshot with the price of the S&P 500 missing; a yield curve,
  a 10Y rate and a CPI reading of FRED.
\<close>

definition calls_down :: "unit api_calls" where
  "calls_down =
     \<lparr>getHealth = Inl NetworkError, getMarketSnapshot = Inl NetworkError,
      getFredYieldCurve = Inl NetworkError, getFredRates = Inl NetworkError,
      getFredInflation = Inl NetworkError\<rparr>"

definition example_snapshot :: "real option \<Rightarrow> snapshot_response" where
  "example_snapshot spx_price =
     \<lparr>snapshot_data = Some
        \<lparr>d_spx = Some \<lparr>current_price = spx_price, change_percent = Some 0.24,
                        price_change_percentage_24h = None, price = None, qvalue = None,
                        rate = None\<rparr>,
         d_vix = None, d_dxy = None, d_bitcoin = None, d_gold = None,
         d_yield_curve = Some \<lparr>fed_funds = Some 5.33, treasury_2y = Some 4.26,
                                treasury_5y = None, treasury_10y = Some 4.28,
                                treasury_30y = Some 4.51\<rparr>\<rparr>,
      snapshot_source = Some ''live''\<rparr>"

definition example_fred_curve :: "yield_data fred_response" where
  "example_fred_curve =
     \<lparr>data = Some \<lparr>fed_funds = Some 5.25, treasury_2y = Some 4.3, treasury_5y = None,
                    treasury_10y = Some 4.4, treasury_30y = Some 4.6\<rparr>\<rparr>"

definition example_rates :: "rates_data fred_response" where
  "example_rates =
     \<lparr>data = Some \<lparr>rates_treasury_10y = Some \<lparr>latest_value = Some 4.5, pct_change = None\<rparr>\<rparr>\<rparr>"

definition example_inflation :: "real \<Rightarrow> inflation_data fred_response" where
  "example_inflation v =
     \<lparr>data = Some \<lparr>cpi = Some \<lparr>latest_value = Some v, pct_change = None\<rparr>\<rparr>\<rparr>"

section \<open>The source badge (pages/RedditFeed, \<open>SourceBadge\<close>)\<close>

text \<open>\<open>js_includes s p\<close> is \<open>s.includes(p)\<close>: \<open>p\<close> occurs in \<open>s\<close> as a substring.\<close>

fun js_includes :: "string \<Rightarrow> string \<Rightarrow> bool" where
  "js_includes [] p = (p = [])"
| "js_includes (c # s) p = (take (length p) (c # s) = p \<or> js_includes s p)"

text \<open>
  The colour class that \<open>SourceBadge\<close> picks; no badge is rendered (\<open>None\<close>) for an
  empty source string.
\<close>

datatype badge = Amber | Orange | Emerald

definition SourceBadge :: "string \<Rightarrow> badge option" where
  "SourceBadge s =
     (if s = [] then None
      else Some (if s = ''mock'' then Amber
                 else if js_includes s ''fallback'' then Orange
                 else Emerald))"

section \<open>Aggregator and Freshness Cache\<close>

text \<open>
  The README places the Aggregator, the cache and the mock data module in the Python
  backend (\<open>src/ingestion/aggregator.py\<close>, \<open>src/data\<close>); the frontend only calls
  its endpoints. The definitions of this section follow the words of the specification
  (its data model, and the Freshness Cache and the Aggregator of its component design).
\<close>

text \<open>Modelled from the spec: the enum \<open>domain\<close> of a Snapshot (backend data model).\<close>

datatype domain = Equities | FX | Commodities | Crypto | Macro | Sentiment

text \<open>Modelled from the spec: the enum \<open>origin\<close> of a Snapshot (backend data model).\<close>

datatype origin = Live | Mock | LiveDegradedToMock

text \<open>Modelled from the spec: the kinds of \<open>FetchError\<close> of a Provider Adapter (backend).\<close>

datatype fetch_error = Timeout | RateLimited | UpstreamError | MalformedResponse

text \<open>
  Modelled from the spec: the Aggregator mode that the \<open>source\<close> query parameter
  (\<open>live|mock\<close>) selects (backend routers).
\<close>

datatype source_mode = SourceLive | SourceMock

text \<open>
  Modelled from the spec: the payload of a domain (backend data model), partitioned
  into the sub-items of the domain. Each sub-item of the schema has an entry; a
  sub-item whose fetch failed is recorded with no value.
\<close>

type_synonym 'v payload = "(string \<times> 'v option) list"

text \<open>Modelled from the spec: the Snapshot (backend data model), time as a number.\<close>

record 'v snapshot =
  domain :: domain
  origin :: origin
  fetched_at :: nat
  payload :: "'v payload"
  partial :: bool

text \<open>
  Modelled from the spec: the fixed configuration of the backend: the sub-items that
  make up the schema of each domain, the per-domain TTL table, and the canned values of
  the Mock Provider.
\<close>

record 'v config =
  sub_items :: "domain \<Rightarrow> string list"
  ttl :: "domain \<Rightarrow> nat"
  mock_value :: "domain \<Rightarrow> string \<Rightarrow> 'v"

text \<open>
  Modelled from the spec: the live Provider Adapters (backend clients) as the
  environment: the outcome of fetching a sub-item of a domain at a time, a value or a
  \<open>FetchError\<close>. One attempt is made per sub-item; the spec leaves the retry policy
  open.
\<close>

type_synonym 'v adapter = "nat \<Rightarrow> domain \<Rightarrow> string \<Rightarrow> fetch_error + 'v"

text \<open>
  Modelled from the spec: the Freshness Cache (backend), entries \<open>(value, expires_at)\<close>
  under a key; the operations read the clock, here the argument \<open>now\<close>.
\<close>

type_synonym ('k, 'a) cache = "'k \<rightharpoonup> 'a \<times> nat"

text \<open>
  Modelled from the spec: \<open>get(key)\<close> of the Freshness Cache (backend): an entry is
  served only before its \<open>expires_at\<close>.
\<close>

definition cache_get :: "('k, 'a) cache \<Rightarrow> 'k \<Rightarrow> nat \<Rightarrow> 'a option" where
  "cache_get c key now =
     (case c key of
        None \<Rightarrow> None
      | Some (v, expires_at) \<Rightarrow> if now < expires_at then Some v else None)"

text \<open>Modelled from the spec: \<open>put(key, value, ttl)\<close> of the Freshness Cache (backend).\<close>

definition cache_put :: "('k, 'a) cache \<Rightarrow> 'k \<Rightarrow> 'a \<Rightarrow> nat \<Rightarrow> nat \<Rightarrow> ('k, 'a) cache" where
  "cache_put c key v t now = c(key \<mapsto> (v, now + t))"

text \<open>Modelled from the spec: \<open>invalidate(key)\<close> of the Freshness Cache (backend).\<close>

definition cache_invalidate :: "('k, 'a) cache \<Rightarrow> 'k \<Rightarrow> ('k, 'a) cache" where
  "cache_invalidate c key = c(key := None)"

text \<open>
  Modelled from the spec: the state of the Aggregator (backend): the Freshness Cache,
  keyed by domain, and a log of the live fetches issued, kept to count them.
\<close>

record 'v agg_state =
  cache :: "(domain, 'v snapshot) cache"
  live_calls :: "(domain \<times> nat) list"

text \<open>
  Modelled from the spec: the Mock Provider (backend mock data module): deterministic,
  with the schema of the live payload and every sub-item present.
\<close>

definition mock_provider :: "'v config \<Rightarrow> domain \<Rightarrow> 'v payload" where
  "mock_provider cfg d = map (\<lambda>k. (k, Some (mock_value cfg d k))) (sub_items cfg d)"

text \<open>
  Modelled from the spec: the live fetch of a domain (backend Aggregator, step 3): one
  adapter result per sub-item.
\<close>

definition live_fetch ::
  "'v config \<Rightarrow> 'v adapter \<Rightarrow> nat \<Rightarrow> domain \<Rightarrow> (string \<times> (fetch_error + 'v)) list" where
  "live_fetch cfg live now d = map (\<lambda>k. (k, live now d k)) (sub_items cfg d)"

text \<open>
  Modelled from the spec: the entire domain fetch fails (backend Aggregator, step 4):
  all sub-items fail, or the only call of a single-item domain fails.
\<close>

definition all_failed :: "(string \<times> (fetch_error + 'v)) list \<Rightarrow> bool" where
  "all_failed results = list_all (\<lambda>(k, r). isl r) results"

text \<open>Modelled from the spec: a sub-item failed (backend Aggregator, step 3).\<close>

definition some_failed :: "(string \<times> (fetch_error + 'v)) list \<Rightarrow> bool" where
  "some_failed results = list_ex (\<lambda>(k, r). isl r) results"

text \<open>
  Modelled from the spec: the payload of a live result (backend Aggregator, step 3):
  succeeded sub-items populate it, failed ones are recorded.
\<close>

definition succeeded :: "(string \<times> (fetch_error + 'v)) list \<Rightarrow> 'v payload" where
  "succeeded results =
     map (\<lambda>(k, r). (k, case r of Inl e \<Rightarrow> None | Inr v \<Rightarrow> Some v)) results"

text \<open>
  Modelled from the spec: the Aggregator for one requested domain (backend
  \<open>DataAggregator\<close>), steps 1 to 5 of its design: mock mode skips the cache; a cache
  hit is returned unmodified; on a miss the live adapter is invoked; an entire failure
  falls back to the Mock Provider and is not cached; a full or partial live result is
  cached with the TTL of the domain.
\<close>

definition fetch_domain ::
  "'v config \<Rightarrow> 'v adapter \<Rightarrow> source_mode \<Rightarrow> domain \<Rightarrow> nat \<Rightarrow> 'v agg_state
     \<Rightarrow> 'v snapshot \<times> 'v agg_state" where
  "fetch_domain cfg live mode d now st =
     (case mode of
        SourceMock \<Rightarrow>
          (\<lparr>domain = d, origin = Mock, fetched_at = now,
            payload = mock_provider cfg d, partial = False\<rparr>, st)
      | SourceLive \<Rightarrow>
          (case cache_get (cache st) d now of
             Some snap \<Rightarrow> (snap, st)
           | None \<Rightarrow>
               (let results = live_fetch cfg live now d;
                    st1 = st\<lparr>live_calls := live_calls st @ [(d, now)]\<rparr>
                in if all_failed results then
                     (\<lparr>domain = d, origin = LiveDegradedToMock, fetched_at = now,
                       payload = mock_provider cfg d, partial = False\<rparr>, st1)
                   else
                     (let snap = \<lparr>domain = d, origin = Live, fetched_at = now,
                                  payload = succeeded results,
                                  partial = some_failed results\<rparr>
                      in (snap, st1\<lparr>cache := cache_put (cache st1) d snap (ttl cfg d) now\<rparr>)))))"

text \<open>
  Modelled from the spec: a payload conforms to the schema of its domain (backend data
  model): it has exactly the sub-items of the domain, in order.
\<close>

definition schema_valid :: "'v config \<Rightarrow> domain \<Rightarrow> 'v payload \<Rightarrow> bool" where
  "schema_valid cfg d p = (map fst p = sub_items cfg d)"

text \<open>Modelled from the spec: a payload is fully populated: no sub-item lacks its value.\<close>

definition fully_populated :: "'v payload \<Rightarrow> bool" where
  "fully_populated p = list_all (\<lambda>(k, v). v \<noteq> None) p"

text \<open>
  Modelled from the spec: the entire live fetch of a domain at a time fails (backend
  Aggregator, step 4).
\<close>

definition entire_fetch_fails :: "'v config \<Rightarrow> 'v adapter \<Rightarrow> nat \<Rightarrow> domain \<Rightarrow> bool" where
  "entire_fetch_fails cfg live now d = all_failed (live_fetch cfg live now d)"

text \<open>
  The value of \<open>source\<close> in a response, as the README documents the market endpoints:
  \<open>live\<close>, \<open>mock\<close>, and \<open>mock (fallback)\<close> after a live failure.
\<close>

fun source_tag :: "origin \<Rightarrow> string" where
  "source_tag Live = ''live''"
| "source_tag Mock = ''mock''"
| "source_tag LiveDegradedToMock = ''mock (fallback)''"

subsection \<open>A small configuration to run the model on\<close>

text \<open>
  Two equity indices, one item for every other domain; the cache lifetimes in seconds
  that the Data Sources page lists (FRED 3600, Yahoo Finance 900, CoinGecko 300,
  Reddit 900).
\<close>

definition demo_config :: "int config" where
  "demo_config =
     \<lparr>sub_items = (\<lambda>d. if d = Equities then [''spx'', ''nasdaq''] else [''value'']),
      ttl = (\<lambda>d. case d of Macro \<Rightarrow> 3600 | Crypto \<Rightarrow> 300 | _ \<Rightarrow> 900),
      mock_value = (\<lambda>d k. 0)\<rparr>"

text \<open>
  An adapter that times out on every item, one that only delivers \<open>spx\<close>, and one that
  is down until time 100 and delivers \<open>spx\<close> afterwards.
\<close>

definition adapter_down :: "int adapter" where
  "adapter_down t d k = Inl Timeout"

definition adapter_spx_only :: "int adapter" where
  "adapter_spx_only t d k = (if k = ''spx'' then Inr 5924 else Inl UpstreamError)"

definition adapter_recovering :: "int adapter" where
  "adapter_recovering t d k =
     (if t \<le> 100 then Inl Timeout else if k = ''spx'' then Inr 5924 else Inl UpstreamError)"

definition empty_state :: "int agg_state" where
  "empty_state = \<lparr>cache = Map.empty, live_calls = []\<rparr>"

section \<open>Report Builder: the enhancement step\<close>

text \<open>
  The README places the report builder and the LLM client in the Python backend
  (\<open>src/reports\<close>, \<open>src/llm\<close>); the frontend posts a \<open>ReportRequest\<close> to
  \<open>/api/v1/reports/generate\<close> and shows the \<open>content\<close> of the response. The
  definitions of this section follow the words of the specification (its data model,
  the Report Builder of its component design, and its error taxonomy). The request is
  the \<open>ReportRequest\<close> that the frontend posts.
\<close>

text \<open>
  The interface \<open>LLMProvider\<close> of frontend/src/api/client.ts, which describes a
  provider of the enhancement (\<open>id\<close> and \<open>type\<close> are \<open>provider_id\<close> and
  \<open>provider_type\<close> here).
\<close>

record LLMProvider =
  provider_id :: string
  label :: string
  provider_type :: string
  needs_key :: bool
  models :: "string list"
  default_model :: string
  available :: bool

text \<open>
  Modelled from the spec: the content of a ReportSection (backend data model):
  narrative text, or tabular/numeric content.
\<close>

datatype content_kind = Narrative | Tabular

text \<open>
  Modelled from the spec: a ReportSection (backend data model): a named block of text
  or tabular content, tagged with the domains it draws from.
\<close>

record report_section =
  section_name :: string
  section_kind :: content_kind
  section_text :: string
  section_domains :: "domain list"

text \<open>
  Modelled from the spec: a Report (backend data model): an ordered sequence of Sections
  plus the metadata \<open>report_id\<close>, \<open>level\<close>, \<open>created_at\<close> and \<open>format\<close>.
\<close>

record report =
  report_id :: string
  report_level :: nat
  created_at :: nat
  report_format :: string
  report_sections :: "report_section list"

text \<open>
  Modelled from the spec: the failure reasons of an EnhancementOutcome (backend):
  timeout, error, provider unavailable.
\<close>

datatype enhancement_error = EnhancementTimeout | EnhancementFailed | ProviderUnavailable

text \<open>
  Modelled from the spec: the Enhancement collaborator (backend LLM client) as the
  environment: \<open>enhance(report_context, provider_id, model_id) -> text | error\<close>. A
  call that does not answer within the bounded timeout is the error
  \<open>EnhancementTimeout\<close>.
\<close>

type_synonym enhancer = "string \<Rightarrow> string \<Rightarrow> string option \<Rightarrow> enhancement_error + string"

text \<open>
  Modelled from the spec: the rule-based assembly of the sections (backend Report
  Builder, steps collect-snapshots to assemble-sections) as a parameter: the sections
  for a level and the four inclusion flags, over the snapshots collected for the
  request. The enhancement selection is not among its arguments: assembly comes before
  the enhancement step.
\<close>

type_synonym assembler =
  "nat \<Rightarrow> bool option \<Rightarrow> bool option \<Rightarrow> bool option \<Rightarrow> bool option \<Rightarrow> report_section list"

text \<open>
  Modelled from the spec: the ValidationError of the error taxonomy (backend): invalid
  level, unknown format, unknown provider id. It is the only class of error that the
  caller sees as a failed response.
\<close>

datatype validation_error = InvalidLevel | UnknownFormat | UnknownProvider

definition validate :: "LLMProvider list \<Rightarrow> ReportRequest \<Rightarrow> validation_error option" where
  "validate providers req =
     (if level req \<notin> {1, 2, 3} then Some InvalidLevel
      else if format req \<notin> {''markdown'', ''json'', ''pdf'', ''html''} then Some UnknownFormat
      else (case llm_provider req of
              None \<Rightarrow> None
            | Some pid \<Rightarrow>
                if pid \<in> set (map provider_id providers) then None
                else Some UnknownProvider))"

text \<open>
  Modelled from the spec: the context sent to the collaborator (backend Report Builder,
  enhancement step): the assembled section text.
\<close>

definition report_context :: "report \<Rightarrow> string" where
  "report_context rep = concat (map section_text (report_sections rep))"

text \<open>
  Modelled from the spec: the policy of a successful enhancement (backend Report
  Builder): the output replaces the narrative section text, never the tabular/numeric
  sections.
\<close>

definition replace_narrative :: "string \<Rightarrow> report \<Rightarrow> report" where
  "replace_narrative enhanced_text rep =
     rep\<lparr>report_sections :=
       map (\<lambda>s. if section_kind s = Narrative then s\<lparr>section_text := enhanced_text\<rparr> else s)
         (report_sections rep)\<rparr>"

text \<open>
  Modelled from the spec: the EnhancementOutcome (backend Report Builder, enhancement
  step) for a selected provider: a provider that does not advertise availability is a
  failure without a call; otherwise the collaborator is called with the assembled
  section text.
\<close>

definition enhancement_outcome ::
  "LLMProvider list \<Rightarrow> enhancer \<Rightarrow> report \<Rightarrow> string \<Rightarrow> string option
     \<Rightarrow> enhancement_error + string" where
  "enhancement_outcome providers enhance rep pid model =
     (case find (\<lambda>p. provider_id p = pid) providers of
        None \<Rightarrow> Inl ProviderUnavailable
      | Some p \<Rightarrow>
          if available p then enhance (report_context rep) pid model
          else Inl ProviderUnavailable)"

text \<open>
  Modelled from the spec: what the Report API returns for a created report (backend):
  the report and the non-fatal \<open>degraded\<close> flag.
\<close>

record report_response =
  response_report :: report
  degraded :: bool

text \<open>
  Modelled from the spec: the enhancement step of the Report Builder (backend): with no
  provider selected the assembled report is final; with one, a success replaces the
  narrative text, and any failure returns the rule-based assembled report unchanged,
  marked as degraded.
\<close>

definition enhance_step ::
  "LLMProvider list \<Rightarrow> enhancer \<Rightarrow> string option \<Rightarrow> string option \<Rightarrow> report
     \<Rightarrow> report_response" where
  "enhance_step providers enhance selection model rep =
     (case selection of
        None \<Rightarrow> \<lparr>response_report = rep, degraded = False\<rparr>
      | Some pid \<Rightarrow>
          (case enhancement_outcome providers enhance rep pid model of
             Inl reason \<Rightarrow> \<lparr>response_report = rep, degraded = True\<rparr>
           | Inr enhanced_text \<Rightarrow>
               \<lparr>response_report = replace_narrative enhanced_text rep, degraded = False\<rparr>))"

text \<open>
  Modelled from the spec: the rule-based assembled report of a request (backend Report
  Builder); the identifier and the creation time are given by the caller of the core.
\<close>

definition rule_based_report :: "assembler \<Rightarrow> string \<Rightarrow> nat \<Rightarrow> ReportRequest \<Rightarrow> report" where
  "rule_based_report assemble rid now req =
     \<lparr>report_id = rid, report_level = level req, created_at = now,
      report_format = format req,
      report_sections =
        assemble (level req) (include_technicals req) (include_sentiment req)
          (include_correlations req) (include_research req)\<rparr>"

text \<open>
  Modelled from the spec: create report of the Report API (backend \<open>POST /generate\<close>):
  a malformed request is the only hard failure; otherwise the report is assembled,
  optionally enhanced, and returned.
\<close>

definition create_report ::
  "LLMProvider list \<Rightarrow> assembler \<Rightarrow> enhancer \<Rightarrow> string \<Rightarrow> nat \<Rightarrow> ReportRequest
     \<Rightarrow> validation_error + report_response" where
  "create_report providers assemble enhance rid now req =
     (case validate providers req of
        Some err \<Rightarrow> Inl err
      | None \<Rightarrow>
          Inr (enhance_step providers enhance (llm_provider req) (llm_model req)
                 (rule_based_report assemble rid now req)))"

text \<open>
  Modelled from the spec: two reports that differ in narrative text at most: the same
  metadata, and section by section the same name, kind and domains, and the same text
  in every tabular section.
\<close>

definition same_but_narrative :: "report \<Rightarrow> report \<Rightarrow> bool" where
  "same_but_narrative a b \<longleftrightarrow>
     report_id a = report_id b \<and> report_level a = report_level b
     \<and> created_at a = created_at b \<and> report_format a = report_format b
     \<and> list_all2
         (\<lambda>s t. section_name s = section_name t \<and> section_kind s = section_kind t
                \<and> section_domains s = section_domains t
                \<and> (section_kind s = Tabular \<longrightarrow> section_text s = section_text t))
         (report_sections a) (report_sections b)"

text \<open>
  A configuration for the examples: two providers, of which the second is not
  available; a level-1 assembly of a narrative and a tabular section; a collaborator
  that times out, and one that answers.
\<close>

definition demo_providers :: "LLMProvider list" where
  "demo_providers =
     [\<lparr>provider_id = ''openai'', label = ''OpenAI'', provider_type = ''closed'',
       needs_key = True, models = [''gpt-4o''], default_model = ''gpt-4o'', available = True\<rparr>,
      \<lparr>provider_id = ''ollama'', label = ''Ollama'', provider_type = ''open'',
       needs_key = False, models = [''llama3''], default_model = ''llama3'',
       available = False\<rparr>]"

definition demo_assemble :: assembler where
  "demo_assemble lv t s c r =
     [\<lparr>section_name = ''Market Pulse'', section_kind = Narrative,
       section_text = ''Risk appetite is firm.'', section_domains = [Equities, Macro]\<rparr>,
      \<lparr>section_name = ''Key Metrics'', section_kind = Tabular,
       section_text = ''SPX 5924 | VIX 16.32'', section_domains = [Equities]\<rparr>]"

definition enhancer_timeout :: enhancer where
  "enhancer_timeout report_text pid model = Inl EnhancementTimeout"

definition enhancer_ok :: enhancer where
  "enhancer_ok report_text pid model = Inr ''Equities extend gains as volatility eases.''"

definition demo_request :: ReportRequest where
  "demo_request =
     \<lparr>level = 1, format = ''markdown'', include_technicals = Some False,
      include_sentiment = Some False, include_correlations = Some False,
      include_research = None, assets = None, document_ids = None, title = None,
      llm_provider = Some ''openai'', llm_model = Some ''gpt-4o'', custom_prompt = None\<rparr>"

chapter \<open>Properties\<close>

section \<open>The data source mode is always live or mock\<close>

lemma initial_source_cases:
  "initial_source ls = (if ls STORAGE_KEY = Some ''mock'' then ''mock'' else ''live'')"
  by (simp add: initial_source_def)

lemma source_persist: "source (persist st) = source st"
  by (simp add: persist_def)

lemma source_mount: "source (mount ls) = initial_source ls"
  by (simp add: mount_def source_persist)

lemma is_data_source_on_click: "is_data_source (source (on_click c st))"
  by (cases c) (simp_all add: setSource_def source_persist is_data_source_def)

lemma is_data_source_clicks:
  "is_data_source (source st) \<Longrightarrow> is_data_source (source (clicks cs st))"
proof (induction cs arbitrary: st)
  case Nil
  then show ?case by simp
next
  case (Cons c cs)
  have "is_data_source (source (on_click c st))"
    by (rule is_data_source_on_click)
  then show ?case using Cons.IH by simp
qed

text \<open>What is persisted is the current mode, so a later mount reads back live or mock.\<close>

lemma stored_after_clicks:
  "storage st STORAGE_KEY = Some (source st) \<Longrightarrow>
   storage (clicks cs st) STORAGE_KEY = Some (source (clicks cs st))"
proof (induction cs arbitrary: st)
  case Nil
  then show ?case by simp
next
  case (Cons c cs)
  have "storage (on_click c st) STORAGE_KEY = Some (source (on_click c st))"
    by (cases c) (simp_all add: setSource_def persist_def)
  then show ?case using Cons.IH by simp
qed

text \<open>
  Claim C10. After mounting the provider on any localStorage content and after any
  sequence of sidebar clicks, the mode handed to the fetch functions is exactly
  \<open>"live"\<close> or \<open>"mock"\<close>; the initial mode is \<open>"mock"\<close> when the stored value is
  exactly the string \<open>"mock"\<close> and \<open>"live"\<close> for every other stored value, an absent
  one included.
\<close>

theorem data_source_live_or_mock:
  "is_data_source (useDataSource (clicks cs (mount ls)))
   \<and> (ls STORAGE_KEY \<noteq> Some ''mock'' \<longrightarrow> useDataSource (mount ls) = ''live'')
   \<and> (ls STORAGE_KEY = Some ''mock'' \<longrightarrow> useDataSource (mount ls) = ''mock'')"
proof -
  have "is_data_source (source (mount ls))"
    by (simp add: source_mount initial_source_cases is_data_source_def)
  then have "is_data_source (source (clicks cs (mount ls)))"
    by (rule is_data_source_clicks)
  then show ?thesis
    by (simp add: useDataSource_def source_mount initial_source_cases)
qed

text \<open>
  A corrupted stored value (\<open>"MOCK"\<close>) and an absent one give live, the exact string
  gives mock, and two clicks later the mode is still one of the two.
\<close>

theorem data_source_live_or_mock_witness:
  "is_data_source (useDataSource (clicks [ClickMock, ClickLive]
      (mount (Map.empty(STORAGE_KEY \<mapsto> ''MOCK'')))))
   \<and> useDataSource (mount (Map.empty(STORAGE_KEY \<mapsto> ''MOCK''))) = ''live''
   \<and> useDataSource (mount Map.empty) = ''live''
   \<and> useDataSource (mount (Map.empty(STORAGE_KEY \<mapsto> ''mock''))) = ''mock''"
  using data_source_live_or_mock [of "[ClickMock, ClickLive]" "Map.empty(STORAGE_KEY \<mapsto> ''MOCK'')"]
    data_source_live_or_mock [of "[]" "Map.empty"]
    data_source_live_or_mock [of "[]" "Map.empty(STORAGE_KEY \<mapsto> ''mock'')"]
  by simp

section \<open>The offline report, line by line\<close>

lemma split_lines_not_Nil: "split_lines s \<noteq> []"
  by (induction s) (auto split: list.splits)

lemma split_lines_no_newline: "newline \<notin> set l \<Longrightarrow> split_lines l = [l]"
  by (induction l) auto

lemma split_lines_append:
  "split_lines (a @ newline # b) = split_lines a @ split_lines b"
proof (induction a)
  case Nil
  then show ?case by simp
next
  case (Cons c a)
  then show ?case
    using split_lines_not_Nil [of a] by (cases "split_lines a") auto
qed

lemma split_lines_text_lines:
  "ls \<noteq> [] \<Longrightarrow> \<forall>l\<in>set ls. newline \<notin> set l \<Longrightarrow> split_lines (text_lines ls) = ls"
proof (induction ls rule: text_lines.induct)
  case 1
  then show ?case by simp
next
  case (2 l)
  then show ?case by (simp add: split_lines_no_newline)
next
  case (3 l m ls)
  then show ?case by (simp add: split_lines_append split_lines_no_newline)
qed

text \<open>Appending a literal that starts with a line feed appends its remaining lines.\<close>

lemma text_lines_join:
  "xs \<noteq> [] \<Longrightarrow> ys \<noteq> [] \<Longrightarrow> text_lines xs @ text_lines ([] # ys) = text_lines (xs @ ys)"
proof (induction xs rule: text_lines.induct)
  case 1
  then show ?case by simp
next
  case (2 l)
  then show ?case by (cases ys) simp_all
next
  case (3 l m ls)
  then show ?case by simp
qed

lemma no_newline_label: "newline \<notin> set (template_str (levelLabels lv))"
  by (simp add: levelLabels_def newline_def)

lemma base_lines_ok:
  "newline \<notin> set ts \<Longrightarrow> \<forall>l\<in>set (base_lines ts lv). newline \<notin> set l"
  using no_newline_label [of lv]
  by (simp add: base_lines_def em_dash_def) (simp add: newline_def)

lemma sentiment_lines_ok: "\<forall>l\<in>set sentiment_lines. newline \<notin> set l"
  by (simp add: sentiment_lines_def newline_def)

lemma standard_lines_ok: "\<forall>l\<in>set standard_lines. newline \<notin> set l"
  by (simp add: standard_lines_def newline_def em_dash_def)

lemma deep_lines_ok: "\<forall>l\<in>set deep_lines. newline \<notin> set l"
  by (simp add: deep_lines_def newline_def em_dash_def)

lemma base_lines_not_Nil: "base_lines ts lv \<noteq> []"
  by (simp add: base_lines_def)

lemma in_tl_ok:
  "\<forall>l\<in>set xs. newline \<notin> set l \<Longrightarrow> \<forall>l\<in>set (tl xs). newline \<notin> set l"
  by (cases xs) simp_all

lemma generateMockReport_text:
  "generateMockReport ts lv = text_lines (base_lines ts lv @ report_tail lv)"
proof -
  obtain S where S: "sentiment_lines = [] # S" "S \<noteq> []"
    by (simp add: sentiment_lines_def)
  obtain T where T: "standard_lines = [] # T" "T \<noteq> []"
    by (simp add: standard_lines_def)
  obtain D where D: "deep_lines = [] # D" "D \<noteq> []"
    by (simp add: deep_lines_def)
  show ?thesis
    unfolding generateMockReport_def report_tail_def base_def sentiment_def standard_def
      deep_def S(1) T(1) D(1)
    using S(2) T(2) D(2)
    by (simp add: text_lines_join base_lines_not_Nil del: text_lines.simps)
qed

lemma report_tail_ok: "\<forall>l\<in>set (report_tail lv). newline \<notin> set l"
proof -
  have "\<forall>l\<in>set ['''', ''---'', ''*End of Executive Summary*'']. newline \<notin> set l"
    "\<forall>l\<in>set ['''', ''---'', ''*End of Standard Report*'']. newline \<notin> set l"
    "\<forall>l\<in>set ['''', ''---'', ''*End of Deep Dive Report*'']. newline \<notin> set l"
    by (simp_all add: newline_def)
  then show ?thesis
    using in_tl_ok [OF sentiment_lines_ok] in_tl_ok [OF standard_lines_ok]
      in_tl_ok [OF deep_lines_ok]
    unfolding report_tail_def by (auto simp del: set_simps)
qed

lemma lines_generateMockReport:
  assumes "newline \<notin> set ts"
  shows "split_lines (generateMockReport ts lv) = base_lines ts lv @ report_tail lv"
proof -
  have "\<forall>l\<in>set (base_lines ts lv @ report_tail lv). newline \<notin> set l"
    using base_lines_ok [OF assms, of lv] report_tail_ok [of lv] by auto
  moreover have "base_lines ts lv @ report_tail lv \<noteq> []"
    by (simp add: base_lines_not_Nil)
  ultimately show ?thesis
    unfolding generateMockReport_text
    by (rule split_lines_text_lines [rotated])
qed

lemma headings_base_lines:
  "filter (\<lambda>l. take 3 l = ''## '') (base_lines ts lv) =
     [''## Market Pulse'', ''## Key Metrics'', ''## Macro Overview'']"
  by (simp add: base_lines_def)

lemma headings_sentiment_lines:
  "filter (\<lambda>l. take 3 l = ''## '') (tl sentiment_lines) = [''## Sentiment Analysis'']"
  by (simp add: sentiment_lines_def)

lemma headings_standard_lines:
  "filter (\<lambda>l. take 3 l = ''## '') (tl standard_lines) = [''## Asset Class Breakdown'']"
  by (simp add: standard_lines_def)

lemma headings_deep_lines:
  "filter (\<lambda>l. take 3 l = ''## '') (tl deep_lines) =
     [''## Technical Levels'', ''## Volatility Assessment'',
      ''## Correlation Matrix Highlights'', ''## Forward Look'']"
  by (simp add: deep_lines_def)

text \<open>The sections of the offline report at each level, in order.\<close>

lemma headings_generateMockReport:
  assumes "newline \<notin> set ts"
  shows "headings (generateMockReport ts lv) =
     [''## Market Pulse'', ''## Key Metrics'', ''## Macro Overview'']
     @ (if lv = 1 then []
        else if lv = 2 then [''## Sentiment Analysis'', ''## Asset Class Breakdown'']
        else [''## Sentiment Analysis'', ''## Asset Class Breakdown'',
              ''## Technical Levels'', ''## Volatility Assessment'',
              ''## Correlation Matrix Highlights'', ''## Forward Look''])"
  unfolding headings_def lines_generateMockReport [OF assms] filter_append headings_base_lines
  by (simp add: report_tail_def headings_sentiment_lines headings_standard_lines
      headings_deep_lines del: split_lines.simps text_lines.simps)

text \<open>The report is a fixed text around the timestamp.\<close>

lemma generateMockReport_frame:
  "\<exists>P Q. \<forall>ts. generateMockReport ts lv = P @ ts @ Q"
proof -
  obtain a B where B:
    "\<And>ts. base_lines ts lv = a # (''> Generated '' @ ts @ '' (offline mock)'') # B"
    "B \<noteq> []"
    by (simp add: base_lines_def)
  have "generateMockReport ts lv =
      (a @ newline # ''> Generated '') @ ts
        @ ('' (offline mock)'' @ newline # text_lines (B @ report_tail lv))"
    for ts
  proof -
    obtain c C where C: "B @ report_tail lv = c # C"
      using B(2) by (cases "B @ report_tail lv") auto
    show ?thesis
      unfolding generateMockReport_text B(1) by (simp add: C)
  qed
  then show ?thesis by blast
qed

lemma generateMockReport_inj:
  "generateMockReport ts lv = generateMockReport ts' lv \<longleftrightarrow> ts = ts'"
proof -
  obtain P Q where "\<And>t. generateMockReport t lv = P @ t @ Q"
    using generateMockReport_frame [of lv] by blast
  then show ?thesis by simp
qed

lemma base_lines_update:
  "base_lines ts lv = (base_lines ts' lv)[1 := ''> Generated '' @ ts @ '' (offline mock)'']"
  by (simp add: base_lines_def)

section \<open>Sections of the offline report by level\<close>

text \<open>
  Claim C2, as the code has it. The offline generator takes the level only. For every
  request, a level-1 report contains none of the technicals, sentiment and
  correlations sections and a level-3 report contains all three, whatever the flags of
  the request; a level-2 report always contains the sentiment section and never the
  technicals or correlations section, again whatever the flags. (The timestamp is a
  single line, as a locale date string is.)
\<close>

theorem offline_report_sections_by_level:
  assumes "newline \<notin> set ts"
  shows "(level req = 1 \<longrightarrow>
            \<not> has_section (generateMockReport ts (level req)) ''## Technical Levels''
          \<and> \<not> has_section (generateMockReport ts (level req)) ''## Sentiment Analysis''
          \<and> \<not> has_section (generateMockReport ts (level req)) ''## Correlation Matrix Highlights'')
       \<and> (level req = 3 \<longrightarrow>
            has_section (generateMockReport ts (level req)) ''## Technical Levels''
          \<and> has_section (generateMockReport ts (level req)) ''## Sentiment Analysis''
          \<and> has_section (generateMockReport ts (level req)) ''## Correlation Matrix Highlights'')
       \<and> (level req = 2 \<longrightarrow>
            \<not> has_section (generateMockReport ts (level req)) ''## Technical Levels''
          \<and> has_section (generateMockReport ts (level req)) ''## Sentiment Analysis''
          \<and> \<not> has_section (generateMockReport ts (level req)) ''## Correlation Matrix Highlights'')"
  unfolding has_section_def headings_generateMockReport [OF assms] by simp

text \<open>
  A level-3 request with every flag false has the three sections; a level-1 request
  with every flag true has none of them.
\<close>

theorem offline_report_sections_by_level_witness:
  "has_section (generateMockReport ''2/14/2025, 9:30:00 AM'' 3) ''## Technical Levels''
   \<and> has_section (generateMockReport ''2/14/2025, 9:30:00 AM'' 3) ''## Sentiment Analysis''
   \<and> has_section (generateMockReport ''2/14/2025, 9:30:00 AM'' 3) ''## Correlation Matrix Highlights''
   \<and> \<not> has_section (generateMockReport ''2/14/2025, 9:30:00 AM'' 1) ''## Technical Levels''
   \<and> \<not> has_section (generateMockReport ''2/14/2025, 9:30:00 AM'' 1) ''## Sentiment Analysis''
   \<and> \<not> has_section (generateMockReport ''2/14/2025, 9:30:00 AM'' 1) ''## Correlation Matrix Highlights''"
proof -
  have nl: "newline \<notin> set ''2/14/2025, 9:30:00 AM''"
    by (simp add: newline_def)
  show ?thesis
    using offline_report_sections_by_level [OF nl, of
        "\<lparr>level = 3, format = ''markdown'', include_technicals = Some False,
          include_sentiment = Some False, include_correlations = Some False,
          include_research = None, assets = None, document_ids = None, title = None,
          llm_provider = None, llm_model = None, custom_prompt = None\<rparr>"]
      offline_report_sections_by_level [OF nl, of
        "\<lparr>level = 1, format = ''markdown'', include_technicals = Some True,
          include_sentiment = Some True, include_correlations = Some True,
          include_research = None, assets = None, document_ids = None, title = None,
          llm_provider = None, llm_model = None, custom_prompt = None\<rparr>"]
    by simp
qed

text \<open>
  The claim as stated lets the flags decide at level 2. They do not: a level-2 request
  with \<open>include_sentiment\<close> false and \<open>include_technicals\<close> true gets a report with the
  sentiment section and without the technicals section.
\<close>

theorem level2_flags_counterexample:
  "include_sentiment \<lparr>level = 2, format = ''markdown'', include_technicals = Some True,
          include_sentiment = Some False, include_correlations = Some True,
          include_research = None, assets = None, document_ids = None, title = None,
          llm_provider = None, llm_model = None, custom_prompt = None\<rparr> = Some False
   \<and> has_section (generateMockReport ''2/14/2025, 9:30:00 AM''
        (level \<lparr>level = 2, format = ''markdown'', include_technicals = Some True,
          include_sentiment = Some False, include_correlations = Some True,
          include_research = None, assets = None, document_ids = None, title = None,
          llm_provider = None, llm_model = None, custom_prompt = None\<rparr>))
        ''## Sentiment Analysis''
   \<and> include_technicals \<lparr>level = 2, format = ''markdown'', include_technicals = Some True,
          include_sentiment = Some False, include_correlations = Some True,
          include_research = None, assets = None, document_ids = None, title = None,
          llm_provider = None, llm_model = None, custom_prompt = None\<rparr> = Some True
   \<and> \<not> has_section (generateMockReport ''2/14/2025, 9:30:00 AM''
        (level \<lparr>level = 2, format = ''markdown'', include_technicals = Some True,
          include_sentiment = Some False, include_correlations = Some True,
          include_research = None, assets = None, document_ids = None, title = None,
          llm_provider = None, llm_model = None, custom_prompt = None\<rparr>))
        ''## Technical Levels''"
proof -
  have nl: "newline \<notin> set ''2/14/2025, 9:30:00 AM''"
    by (simp add: newline_def)
  show ?thesis
    unfolding has_section_def by (simp add: headings_generateMockReport [OF nl])
qed

section \<open>The offline report and the clock\<close>

text \<open>
  Claim C7, as the code has it. The offline report carries the clock reading in its
  header, so it is determined by the level and the timestamp: two calls at the same
  level return the same bytes exactly when they read the same timestamp, and for
  single-line timestamps the two reports differ in their second line only, the line
  \<open>> Generated ... (offline mock)\<close>.
\<close>

theorem report_varies_with_timestamp_only:
  "(generateMockReport ts lv = generateMockReport ts' lv \<longleftrightarrow> ts = ts')
   \<and> (newline \<notin> set ts \<and> newline \<notin> set ts' \<longrightarrow>
        split_lines (generateMockReport ts lv) =
          (split_lines (generateMockReport ts' lv))
            [1 := ''> Generated '' @ ts @ '' (offline mock)''])"
proof -
  have "split_lines (generateMockReport ts lv) =
          (split_lines (generateMockReport ts' lv))
            [1 := ''> Generated '' @ ts @ '' (offline mock)'']"
    if "newline \<notin> set ts" "newline \<notin> set ts'"
  proof -
    have "1 < length (base_lines ts' lv)"
      by (simp add: base_lines_def)
    then show ?thesis
      unfolding lines_generateMockReport [OF that(1)] lines_generateMockReport [OF that(2)]
      by (simp add: list_update_append base_lines_update [of ts lv ts'] del: One_nat_def)
  qed
  then show ?thesis
    using generateMockReport_inj [of ts lv ts'] by blast
qed

text \<open>Two level-1 reports generated one second apart.\<close>

theorem report_varies_with_timestamp_only_witness:
  "generateMockReport ''2/14/2025, 9:30:00 AM'' 1 \<noteq> generateMockReport ''2/14/2025, 9:30:01 AM'' 1
   \<and> split_lines (generateMockReport ''2/14/2025, 9:30:00 AM'' 1) =
      (split_lines (generateMockReport ''2/14/2025, 9:30:01 AM'' 1))
        [1 := ''> Generated 2/14/2025, 9:30:00 AM (offline mock)'']"
proof -
  have nl: "newline \<notin> set ''2/14/2025, 9:30:00 AM'' \<and> newline \<notin> set ''2/14/2025, 9:30:01 AM''"
    by (simp add: newline_def)
  have neq: "''2/14/2025, 9:30:00 AM'' \<noteq> ''2/14/2025, 9:30:01 AM''"
    by simp
  have app: "''> Generated '' @ ''2/14/2025, 9:30:00 AM'' @ '' (offline mock)''
      = ''> Generated 2/14/2025, 9:30:00 AM (offline mock)''"
    by simp
  show ?thesis
    using report_varies_with_timestamp_only
            [of "''2/14/2025, 9:30:00 AM''" 1 "''2/14/2025, 9:30:01 AM''"] nl neq
    unfolding app by blast
qed

text \<open>
  The claim as stated promises byte-identical output for repeated level-1 calls. Two
  calls within the same minute already differ.
\<close>

theorem mock_report_timestamp_counterexample:
  "generateMockReport ''2/14/2025, 9:30:00 AM'' 1 \<noteq> generateMockReport ''2/14/2025, 9:30:59 AM'' 1"
  by (simp add: generateMockReport_inj)


section \<open>What the Reports page shows after a generation\<close>

lemma handleGenerate_delivers:
  "generatedContent (handleGenerate post ts st) \<noteq> None
   \<and> \<not> generating (handleGenerate post ts st)"
  by (simp add: handleGenerate_def Let_def split: sum.splits option.splits)

lemma handleGenerate_failure:
  "generateReport post (request_of st) = Inl e \<Longrightarrow>
   handleGenerate post ts st =
     st\<lparr>generating := False, offline := True,
        generatedContent := Some (generateMockReport ts (st_level st))\<rparr>"
  by (simp add: handleGenerate_def Let_def)

lemma handleGenerate_success:
  "generateReport post (request_of st) = Inr (Some res) \<Longrightarrow>
   handleGenerate post ts st =
     st\<lparr>generating := False, offline := False,
        generatedContent :=
          Some (case content res of Some c \<Rightarrow> c | None \<Rightarrow> ''Report generated successfully.'')\<rparr>"
  by (simp add: handleGenerate_def Let_def)

section \<open>A failed enhancement degrades to the rule-based report\<close>

lemma validate_without_provider:
  "validate providers req = None \<Longrightarrow>
   validate providers (req\<lparr>llm_provider := None, llm_model := None\<rparr>) = None"
  by (auto simp add: validate_def split: if_splits)

lemma rule_based_report_without_provider:
  "rule_based_report assemble rid now (req\<lparr>llm_provider := None, llm_model := None\<rparr>)
     = rule_based_report assemble rid now req"
  by (simp add: rule_based_report_def)

lemma same_but_narrative_refl: "same_but_narrative rep rep"
  by (simp add: same_but_narrative_def list_all2_same)

lemma same_but_narrative_replace: "same_but_narrative (replace_narrative txt rep) rep"
  by (simp add: same_but_narrative_def replace_narrative_def list_all2_map1 list_all2_same)

lemma enhance_step_same_but_narrative:
  "same_but_narrative (response_report (enhance_step providers enhance sel model rep)) rep"
  by (simp add: enhance_step_def same_but_narrative_refl same_but_narrative_replace
      split: option.splits sum.splits)

lemma create_report_accepted:
  "validate providers req = None \<Longrightarrow>
   create_report providers assemble enhance rid now req =
     Inr (enhance_step providers enhance (llm_provider req) (llm_model req)
            (rule_based_report assemble rid now req))"
  by (simp add: create_report_def)

text \<open>
  Claim C3. For a report request that is accepted and selects an enhancement provider,
  any failure of the enhancement step (the collaborator times out or answers with an
  error, or the provider is not available) leaves the response a success: the caller
  receives the rule-based assembled report, marked as degraded. The same request
  without a provider gets the same report, not marked. And whatever the collaborator
  does, the response is a success whose report differs from the rule-based one in
  narrative text at most: same metadata, same sections in the same order, same text
  in every tabular section.
\<close>

theorem enhancement_failure_keeps_rule_based_report:
  assumes "validate providers req = None"
    and "llm_provider req = Some pid"
    and "enhancement_outcome providers enhance (rule_based_report assemble rid now req) pid
           (llm_model req) = Inl reason"
  shows "create_report providers assemble enhance rid now req
           = Inr \<lparr>response_report = rule_based_report assemble rid now req, degraded = True\<rparr>
       \<and> create_report providers assemble enhance' rid now
             (req\<lparr>llm_provider := None, llm_model := None\<rparr>)
           = Inr \<lparr>response_report = rule_based_report assemble rid now req, degraded = False\<rparr>
       \<and> (\<exists>resp. create_report providers assemble enhance'' rid now req = Inr resp
             \<and> same_but_narrative (response_report resp)
                 (rule_based_report assemble rid now req))"
proof -
  have failed: "create_report providers assemble enhance rid now req
      = Inr \<lparr>response_report = rule_based_report assemble rid now req, degraded = True\<rparr>"
    using assms by (simp add: create_report_accepted enhance_step_def)
  have plain: "create_report providers assemble enhance' rid now
        (req\<lparr>llm_provider := None, llm_model := None\<rparr>)
      = Inr \<lparr>response_report = rule_based_report assemble rid now req, degraded = False\<rparr>"
    using validate_without_provider [OF assms(1)]
    by (simp add: create_report_accepted enhance_step_def rule_based_report_without_provider)
  have any: "\<exists>resp. create_report providers assemble enhance'' rid now req = Inr resp
      \<and> same_but_narrative (response_report resp) (rule_based_report assemble rid now req)"
    using assms(1) by (simp add: create_report_accepted enhance_step_same_but_narrative)
  show ?thesis
    using failed plain any by blast
qed

text \<open>
  The collaborator times out on a level-1 request that selects an available provider:
  the response carries the two assembled sections and the degraded mark.
\<close>

theorem enhancement_failure_keeps_rule_based_report_witness:
  "create_report demo_providers demo_assemble enhancer_timeout ''rep-1'' 100 demo_request
     = Inr \<lparr>response_report =
              \<lparr>report_id = ''rep-1'', report_level = 1, created_at = 100,
               report_format = ''markdown'',
               report_sections =
                 [\<lparr>section_name = ''Market Pulse'', section_kind = Narrative,
                   section_text = ''Risk appetite is firm.'',
                   section_domains = [Equities, Macro]\<rparr>,
                  \<lparr>section_name = ''Key Metrics'', section_kind = Tabular,
                   section_text = ''SPX 5924 | VIX 16.32'', section_domains = [Equities]\<rparr>]\<rparr>,
            degraded = True\<rparr>
   \<and> create_report demo_providers demo_assemble enhancer_ok ''rep-1'' 100
         (demo_request\<lparr>llm_provider := None, llm_model := None\<rparr>)
     = Inr \<lparr>response_report = rule_based_report demo_assemble ''rep-1'' 100 demo_request,
            degraded = False\<rparr>
   \<and> (\<exists>resp. create_report demo_providers demo_assemble enhancer_ok ''rep-1'' 100 demo_request
                = Inr resp
         \<and> same_but_narrative (response_report resp)
             (rule_based_report demo_assemble ''rep-1'' 100 demo_request))"
proof -
  have accepted: "validate demo_providers demo_request = None"
    by (simp add: validate_def demo_providers_def demo_request_def)
  have selected: "llm_provider demo_request = Some ''openai''"
    by (simp add: demo_request_def)
  have timeout: "enhancement_outcome demo_providers enhancer_timeout
      (rule_based_report demo_assemble ''rep-1'' 100 demo_request) ''openai''
      (llm_model demo_request) = Inl EnhancementTimeout"
    by (simp add: enhancement_outcome_def demo_providers_def enhancer_timeout_def)
  have rep: "rule_based_report demo_assemble ''rep-1'' 100 demo_request
      = \<lparr>report_id = ''rep-1'', report_level = 1, created_at = 100,
         report_format = ''markdown'',
         report_sections =
           [\<lparr>section_name = ''Market Pulse'', section_kind = Narrative,
             section_text = ''Risk appetite is firm.'',
             section_domains = [Equities, Macro]\<rparr>,
            \<lparr>section_name = ''Key Metrics'', section_kind = Tabular,
             section_text = ''SPX 5924 | VIX 16.32'', section_domains = [Equities]\<rparr>]\<rparr>"
    by (simp add: rule_based_report_def demo_assemble_def demo_request_def)
  show ?thesis
    using enhancement_failure_keeps_rule_based_report
      [OF accepted selected timeout, where enhance' = enhancer_ok and enhance'' = enhancer_ok]
    unfolding rep by blast
qed

text \<open>
  The same request with the provider that is not available, and with a collaborator
  that answers: degraded in the first case; in the second the narrative section
  carries the enhanced text and the table is the assembled one.
\<close>

lemma enhancement_examples:
  "create_report demo_providers demo_assemble enhancer_ok ''rep-1'' 100
      (demo_request\<lparr>llm_provider := Some ''ollama''\<rparr>)
     = Inr \<lparr>response_report = rule_based_report demo_assemble ''rep-1'' 100 demo_request,
            degraded = True\<rparr>"
  "create_report demo_providers demo_assemble enhancer_ok ''rep-1'' 100 demo_request
     = Inr \<lparr>response_report =
              \<lparr>report_id = ''rep-1'', report_level = 1, created_at = 100,
               report_format = ''markdown'',
               report_sections =
                 [\<lparr>section_name = ''Market Pulse'', section_kind = Narrative,
                   section_text = ''Equities extend gains as volatility eases.'',
                   section_domains = [Equities, Macro]\<rparr>,
                  \<lparr>section_name = ''Key Metrics'', section_kind = Tabular,
                   section_text = ''SPX 5924 | VIX 16.32'', section_domains = [Equities]\<rparr>]\<rparr>,
            degraded = False\<rparr>"
  "create_report demo_providers demo_assemble enhancer_ok ''rep-1'' 100
      (demo_request\<lparr>llm_provider := Some ''mistral''\<rparr>) = Inl UnknownProvider"
  by (simp_all add: create_report_def validate_def enhance_step_def enhancement_outcome_def
      replace_narrative_def rule_based_report_def demo_providers_def demo_assemble_def
      demo_request_def enhancer_ok_def)

section \<open>A refresh of the dashboard, block by block\<close>

lemma with_spx_throws: "isl (with_spx nf d m) \<longleftrightarrow> unpriced (d_spx d)"
  by (simp add: with_spx_def unpriced_def formatPrice_def split: option.splits)

lemma with_vix_throws: "isl (with_vix nf d m) \<longleftrightarrow> unpriced (d_vix d)"
  by (simp add: with_vix_def unpriced_def formatPrice_def split: option.splits)

lemma with_btc_throws: "isl (with_btc nf d m) \<longleftrightarrow> unpriced (d_bitcoin d)"
  by (simp add: with_btc_def unpriced_def formatPrice_def split: option.splits)

lemma with_gold_completes: "\<not> isl (with_gold nf d m)"
  by (simp add: with_gold_def formatPrice_def split: option.splits)

lemma new_metrics_throws:
  "isl (new_metrics nf d) \<longleftrightarrow> unpriced (d_spx d) \<or> unpriced (d_vix d) \<or> unpriced (d_bitcoin d)"
proof -
  have "isl (new_metrics nf d) \<longleftrightarrow>
      isl (with_spx nf d fallbackMetrics)
      \<or> (\<exists>m1. with_spx nf d fallbackMetrics = Inr m1 \<and>
            (isl (with_vix nf d m1)
             \<or> (\<exists>m2. with_vix nf d m1 = Inr m2 \<and> isl (with_btc nf d (with_dxy nf d m2)))))"
    using with_gold_completes [of nf d]
    by (auto simp add: new_metrics_def split: sum.splits)
  then show ?thesis
    unfolding with_spx_throws with_vix_throws with_btc_throws
    by (metis with_spx_throws with_vix_throws sum.collapse(2))
qed

text \<open>
  The snapshot block, case by case: no snapshot data, which it skips; data with a
  missing price, on which it throws after \<open>setDataSource\<close>; data that it works
  through.
\<close>

lemma snapshot_cases:
  obtains (absent) "\<And>res d. m = Some (Some res) \<Longrightarrow> snapshot_data res \<noteq> Some d"
  | (present) res d where "m = Some (Some res)" and "snapshot_data res = Some d"
proof (cases "\<exists>res d. m = Some (Some res) \<and> snapshot_data res = Some d")
  case True
  then show ?thesis
    using that(2) by blast
next
  case False
  then show ?thesis
    using that(1) by blast
qed

lemma snapshot_block_absent:
  assumes "\<And>res d. m = Some (Some res) \<Longrightarrow> snapshot_data res \<noteq> Some d"
  shows "snapshot_block nf m st = Normal st" and "\<not> missing_price m"
  using assms
  by (auto simp add: snapshot_block_def missing_price_def split: option.splits)

lemma snapshot_block_present:
  assumes "m = Some (Some res)" and "snapshot_data res = Some d"
  shows "snapshot_block nf m st =
     (if missing_price m
      then Thrown (st\<lparr>dataSource := (case snapshot_source res of Some s \<Rightarrow> s | None \<Rightarrow> [])\<rparr>)
      else Normal
        ((case d_yield_curve d of
            None \<Rightarrow> st\<lparr>dataSource := (case snapshot_source res of Some s \<Rightarrow> s | None \<Rightarrow> [])\<rparr>
          | Some yc \<Rightarrow>
              set_curve (snapshot_curve yc)
                (st\<lparr>dataSource := (case snapshot_source res of Some s \<Rightarrow> s | None \<Rightarrow> [])\<rparr>))
         \<lparr>metrics := projr (new_metrics nf d)\<rparr>))"
proof -
  have mp: "missing_price m \<longleftrightarrow> isl (new_metrics nf d)"
    unfolding new_metrics_throws by (simp add: assms missing_price_def)
  show ?thesis
  proof (cases "new_metrics nf d")
    case (Inl e)
    then show ?thesis
      using mp by (simp add: assms snapshot_block_def Let_def)
  next
    case (Inr nm)
    then show ?thesis
      using mp by (simp add: assms snapshot_block_def Let_def)
  qed
qed

text \<open>The snapshot block throws exactly on a snapshot with a missing price.\<close>

lemma snapshot_block_Thrown:
  "missing_price m \<Longrightarrow> \<exists>s. snapshot_block nf m st = Thrown s"
  by (cases m rule: snapshot_cases)
    (simp_all add: snapshot_block_absent snapshot_block_present)

lemma snapshot_block_Normal:
  "\<not> missing_price m \<Longrightarrow> \<exists>s. snapshot_block nf m st = Normal s"
  by (cases m rule: snapshot_cases)
    (simp_all add: snapshot_block_absent snapshot_block_present)

lemma snapshot_block_frame:
  "regime (hooks_after (snapshot_block nf m st)) = regime st"
  "apiStatus (hooks_after (snapshot_block nf m st)) = apiStatus st"
  "sectors (hooks_after (snapshot_block nf m st)) = sectors st"
  "loading (hooks_after (snapshot_block nf m st)) = loading st"
  by (cases m rule: snapshot_cases;
      simp add: snapshot_block_absent snapshot_block_present set_curve_def
        split: option.splits)+

lemma snapshot_block_dataSource:
  "dataSource (hooks_after (snapshot_block nf m st)) =
     (case m of
        Some (Some res) \<Rightarrow>
          (case snapshot_data res of
             None \<Rightarrow> dataSource st
           | Some d \<Rightarrow> (case snapshot_source res of Some s \<Rightarrow> s | None \<Rightarrow> []))
      | _ \<Rightarrow> dataSource st)"
proof (cases m rule: snapshot_cases)
  case absent
  then show ?thesis
    by (auto simp add: snapshot_block_absent split: option.splits)
next
  case (present res d)
  then show ?thesis
    by (simp add: snapshot_block_present set_curve_def split: option.splits)
qed

lemma snapshot_block_thrown:
  assumes "missing_price m"
  shows "yieldCurve (hooks_after (snapshot_block nf m st)) = yieldCurve st"
    and "metrics (hooks_after (snapshot_block nf m st)) = metrics st"
  using assms
  by (cases m rule: snapshot_cases;
      simp add: snapshot_block_absent snapshot_block_present)+

lemma snapshot_block_yieldCurve:
  "yieldCurve st = yieldCurve st' \<Longrightarrow>
   yieldCurve (hooks_after (snapshot_block nf m st))
     = yieldCurve (hooks_after (snapshot_block nf' m st'))"
  by (cases m rule: snapshot_cases)
    (simp_all add: snapshot_block_absent snapshot_block_present set_curve_def
      split: option.splits)

lemma snapshot_block_metrics:
  "metrics st = metrics st' \<Longrightarrow>
   metrics (hooks_after (snapshot_block nf m st))
     = metrics (hooks_after (snapshot_block nf m st'))"
  by (cases m rule: snapshot_cases)
    (simp_all add: snapshot_block_absent snapshot_block_present set_curve_def
      split: option.splits)

text \<open>The other blocks write one hook each.\<close>

lemma health_block_hook:
  "health_block h st =
     st\<lparr>apiStatus := (case h of Some (Some b) \<Rightarrow> ''online'' | _ \<Rightarrow> apiStatus st)\<rparr>"
  by (simp add: health_block_def split: option.splits)

lemma fred_yield_block_hook:
  "fred_yield_block y st =
     st\<lparr>yieldCurve :=
       (case opt_data y of
          None \<Rightarrow> yieldCurve st
        | Some d \<Rightarrow> if fred_curve d \<noteq> [] then fred_curve d else yieldCurve st)\<rparr>"
  by (simp add: fred_yield_block_def set_curve_def split: option.splits)

lemma rates_block_frame:
  "regime (rates_block nf r st) = regime st"
  "apiStatus (rates_block nf r st) = apiStatus st"
  "dataSource (rates_block nf r st) = dataSource st"
  "yieldCurve (rates_block nf r st) = yieldCurve st"
  "sectors (rates_block nf r st) = sectors st"
  "loading (rates_block nf r st) = loading st"
  by (simp_all add: rates_block_def split: option.splits)

lemma rates_block_metrics:
  "metrics st = metrics st' \<Longrightarrow>
   metrics (rates_block nf r st) = metrics (rates_block nf r st')"
  by (simp add: rates_block_def split: option.splits)

lemma regime_block_hook:
  "regime_block i st =
     st\<lparr>regime :=
       (case cpi_reading i of
          None \<Rightarrow> regime st
        | Some v \<Rightarrow> if v > 3.0 then ''inflationary_expansion''
                   else if v < 1.5 then ''deflationary'' else ''goldilocks'')\<rparr>"
  by (simp add: regime_block_def cpi_reading_def split: option.splits)

text \<open>
  The hooks after the \<open>try\<close>: those after the snapshot block when it throws, and
  otherwise those after the three blocks that follow it.
\<close>

lemma hooks_after_try_body:
  "hooks_after (try_body nf h m y r i st) =
     (if missing_price m then hooks_after (snapshot_block nf m (health_block h st))
      else regime_block i
             (rates_block nf r
                (fred_yield_block y (hooks_after (snapshot_block nf m (health_block h st))))))"
proof (cases "missing_price m")
  case True
  then obtain s where "snapshot_block nf m (health_block h st) = Thrown s"
    using snapshot_block_Thrown by blast
  then show ?thesis
    using True by (simp add: try_body_def)
next
  case False
  then obtain s where "snapshot_block nf m (health_block h st) = Normal s"
    using snapshot_block_Normal by blast
  then show ?thesis
    using False by (simp add: try_body_def)
qed

section \<open>A refresh of the dashboard, hook by hook\<close>

lemma fetchData_regime:
  "regime (fetchData nf calls st) =
     (if missing_price (catch_null (getMarketSnapshot calls)) then regime st
      else (case cpi_reading (catch_null (getFredInflation calls)) of
              None \<Rightarrow> regime st
            | Some v \<Rightarrow> if v > 3.0 then ''inflationary_expansion''
                       else if v < 1.5 then ''deflationary'' else ''goldilocks''))"
  by (simp add: fetchData_def Let_def hooks_after_try_body regime_block_hook
      rates_block_frame fred_yield_block_hook snapshot_block_frame health_block_hook
      split: option.splits)

lemma fetchData_apiStatus:
  "apiStatus (fetchData nf calls st) =
     (case getHealth calls of Inr (Some b) \<Rightarrow> ''online'' | _ \<Rightarrow> apiStatus st)"
  by (simp add: fetchData_def Let_def hooks_after_try_body regime_block_hook
      rates_block_frame fred_yield_block_hook snapshot_block_frame health_block_hook
      catch_null_def split: option.splits sum.splits)

lemma fetchData_dataSource:
  "dataSource (fetchData nf calls st) =
     (case getMarketSnapshot calls of
        Inr (Some res) \<Rightarrow>
          (case snapshot_data res of
             None \<Rightarrow> dataSource st
           | Some d \<Rightarrow> (case snapshot_source res of Some s \<Rightarrow> s | None \<Rightarrow> []))
      | _ \<Rightarrow> dataSource st)"
  by (simp add: fetchData_def Let_def hooks_after_try_body regime_block_hook
      rates_block_frame fred_yield_block_hook snapshot_block_dataSource health_block_hook
      catch_null_def split: option.splits sum.splits)

lemma fetchData_frame:
  "sectors (fetchData nf calls st) = sectors st"
  "loading (fetchData nf calls st) = False"
  by (simp_all add: fetchData_def Let_def hooks_after_try_body regime_block_hook
      rates_block_frame fred_yield_block_hook snapshot_block_frame health_block_hook)

text \<open>
  The yield curve after a refresh is a function of the snapshot call, the yield-curve
  call and the curve before; the metric cards are a function of the snapshot call,
  the rates call and the cards before.
\<close>

lemma fetchData_yieldCurve:
  assumes "getMarketSnapshot calls = getMarketSnapshot calls'"
    and "getFredYieldCurve calls = getFredYieldCurve calls'"
  shows "yieldCurve (fetchData nf calls st) = yieldCurve (fetchData nf calls' st)"
proof -
  have snap: "yieldCurve (hooks_after (snapshot_block nf (catch_null (getMarketSnapshot calls'))
          (health_block (catch_null (getHealth calls)) (st\<lparr>loading := True\<rparr>))))
      = yieldCurve (hooks_after (snapshot_block nf (catch_null (getMarketSnapshot calls'))
          (health_block (catch_null (getHealth calls')) (st\<lparr>loading := True\<rparr>))))"
    by (rule snapshot_block_yieldCurve) (simp add: health_block_hook)
  show ?thesis
    by (simp add: fetchData_def Let_def hooks_after_try_body regime_block_hook
        rates_block_frame fred_yield_block_hook assms snap cong: option.case_cong if_cong)
qed

lemma fetchData_metrics:
  assumes "getMarketSnapshot calls = getMarketSnapshot calls'"
    and "getFredRates calls = getFredRates calls'"
  shows "metrics (fetchData nf calls st) = metrics (fetchData nf calls' st)"
proof -
  let ?m = "catch_null (getMarketSnapshot calls')"
  let ?s = "\<lambda>c. hooks_after (snapshot_block nf ?m
      (health_block (catch_null (getHealth c)) (st\<lparr>loading := True\<rparr>)))"
  have snap: "metrics (?s calls) = metrics (?s calls')"
    by (rule snapshot_block_metrics) (simp add: health_block_hook)
  have rates: "metrics (rates_block nf (catch_null (getFredRates calls'))
            (fred_yield_block (catch_null (getFredYieldCurve calls)) (?s calls)))
      = metrics (rates_block nf (catch_null (getFredRates calls'))
            (fred_yield_block (catch_null (getFredYieldCurve calls')) (?s calls')))"
    by (rule rates_block_metrics) (simp add: fred_yield_block_hook snap)
  show ?thesis
    by (simp add: fetchData_def Let_def hooks_after_try_body regime_block_hook assms
        snap rates)
qed

text \<open>
  A snapshot with a missing price ends the refresh in the snapshot block: the label,
  the yield curve and the metric cards stay what they were, whatever the FRED calls
  delivered.
\<close>

lemma fetchData_missing_price:
  assumes "missing_price (catch_null (getMarketSnapshot calls))"
  shows "regime (fetchData nf calls st) = regime st"
    and "yieldCurve (fetchData nf calls st) = yieldCurve st"
    and "metrics (fetchData nf calls st) = metrics st"
  using assms
  by (simp_all add: fetchData_def Let_def hooks_after_try_body snapshot_block_frame
      snapshot_block_thrown health_block_hook)

lemma missing_price_example:
  "regime (fetchData example_format
      (calls_down\<lparr>getMarketSnapshot := Inr (Some (example_snapshot None)),
                  getFredInflation := Inr (Some (example_inflation 3.2))\<rparr>)
      initial_dashboard) = ''risk_on''"
  by (simp add: fetchData_regime missing_price_def catch_null_def example_snapshot_def
      unpriced_def initial_dashboard_def)

lemma regime_fetchData_closed:
  "regime st \<in> set regime_labels \<Longrightarrow> regime (fetchData nf calls st) \<in> set regime_labels"
  by (simp add: fetchData_regime regime_labels_def split: option.splits)

lemma regime_refreshes_closed:
  "regime st \<in> set regime_labels \<Longrightarrow> regime (refreshes nf cs st) \<in> set regime_labels"
  by (induction cs arbitrary: st) (simp_all add: regime_fetchData_closed)

lemma example_readings:
  "cpi_reading (catch_null (Inr (Some (example_inflation v)))) = Some v"
  "cpi_reading (catch_null (Inl e)) = None"
  "\<not> missing_price (catch_null (Inr (Some (example_snapshot (Some x)))))"
  "\<not> missing_price (catch_null (Inl e))"
  by (simp_all add: cpi_reading_def opt_data_def catch_null_def example_inflation_def
      missing_price_def example_snapshot_def unpriced_def)

section \<open>The regime label of the dashboard\<close>

text \<open>
  Claim C6, as the code has it. A refresh always ends with one label. On a refresh
  whose snapshot has no missing price (so that the \<open>try\<close> reaches the regime block),
  a CPI reading that is present decides the label alone: \<open>inflationary_expansion\<close>
  above 3.0, \<open>deflationary\<close> below 1.5, \<open>goldilocks\<close> otherwise. When the reading
  is missing (failed call, no data, no CPI series, no latest value), the label stays
  what it was, which is \<open>risk_on\<close> on a fresh dashboard: there is no neutral default.
  After any sequence of refreshes the label is one of the closed set of regime labels.
\<close>

theorem regime_from_cpi_or_unchanged:
  "(\<not> missing_price (catch_null (getMarketSnapshot calls))
      \<and> cpi_reading (catch_null (getFredInflation calls)) = Some v \<longrightarrow>
      regime (fetchData nf calls st) =
        (if v > 3.0 then ''inflationary_expansion''
         else if v < 1.5 then ''deflationary'' else ''goldilocks''))
   \<and> (cpi_reading (catch_null (getFredInflation calls)) = None \<longrightarrow>
        regime (fetchData nf calls st) = regime st)
   \<and> regime (refreshes nf cs initial_dashboard) \<in> set regime_labels"
proof -
  have "regime initial_dashboard \<in> set regime_labels"
    by (simp add: initial_dashboard_def regime_labels_def)
  then have "regime (refreshes nf cs initial_dashboard) \<in> set regime_labels"
    by (rule regime_refreshes_closed)
  then show ?thesis
    by (simp add: fetchData_regime)
qed

text \<open>
  A snapshot with its prices and a reading of 3.2 give \<open>inflationary_expansion\<close> on a
  fresh dashboard; with every call rejected \<open>stagflation\<close> stays in place.
\<close>

theorem regime_from_cpi_or_unchanged_witness:
  "regime (fetchData example_format
      (calls_down\<lparr>getMarketSnapshot := Inr (Some (example_snapshot (Some 5924.02))),
                  getFredInflation := Inr (Some (example_inflation 3.2))\<rparr>)
      initial_dashboard) = ''inflationary_expansion''
   \<and> regime (fetchData example_format calls_down (initial_dashboard\<lparr>regime := ''stagflation''\<rparr>))
       = ''stagflation''
   \<and> regime (refreshes example_format
        [calls_down, calls_down\<lparr>getFredInflation := Inr (Some (example_inflation 1.2))\<rparr>]
        initial_dashboard) \<in> set regime_labels"
proof -
  let ?calls = "calls_down\<lparr>getMarketSnapshot := Inr (Some (example_snapshot (Some 5924.02))),
      getFredInflation := Inr (Some (example_inflation 3.2))\<rparr>"
  have priced: "\<not> missing_price (catch_null (getMarketSnapshot ?calls))"
    by (simp add: example_readings)
  have reading: "cpi_reading (catch_null (getFredInflation ?calls)) = Some 3.2"
    by (simp add: example_readings)
  have none: "cpi_reading (catch_null (getFredInflation calls_down)) = None"
    by (simp add: calls_down_def example_readings)
  have "regime (fetchData example_format ?calls initial_dashboard) = ''inflationary_expansion''"
    using regime_from_cpi_or_unchanged
      [where calls = ?calls and v = "3.2" and nf = example_format and st = initial_dashboard
         and cs = "[]"]
      priced reading
    by simp
  moreover have "regime (fetchData example_format calls_down
      (initial_dashboard\<lparr>regime := ''stagflation''\<rparr>)) = ''stagflation''"
    using regime_from_cpi_or_unchanged
      [where calls = calls_down and v = 0 and nf = example_format
         and st = "initial_dashboard\<lparr>regime := ''stagflation''\<rparr>" and cs = "[]"]
      none
    by simp
  moreover have "regime (refreshes example_format
        [calls_down, calls_down\<lparr>getFredInflation := Inr (Some (example_inflation 1.2))\<rparr>]
        initial_dashboard) \<in> set regime_labels"
    using regime_from_cpi_or_unchanged
      [where calls = calls_down and v = 0 and nf = example_format and st = initial_dashboard
         and cs = "[calls_down,
           calls_down\<lparr>getFredInflation := Inr (Some (example_inflation 1.2))\<rparr>]"]
    by blast
  ultimately show ?thesis
    by blast
qed

text \<open>
  The claim as stated has missing inputs give a neutral default label, and identical
  inputs identical labels. A refresh in which every call is rejected leaves
  \<open>inflationary_expansion\<close> on a dashboard that read a CPI of 3.2 before,
  \<open>deflationary\<close> on one that read 1.2, and \<open>risk_on\<close> on a fresh one.
\<close>

theorem regime_missing_input_counterexample:
  "regime (refreshes example_format
      [calls_down\<lparr>getFredInflation := Inr (Some (example_inflation 3.2))\<rparr>, calls_down]
      initial_dashboard) = ''inflationary_expansion''
   \<and> regime (refreshes example_format
      [calls_down\<lparr>getFredInflation := Inr (Some (example_inflation 1.2))\<rparr>, calls_down]
      initial_dashboard) = ''deflationary''
   \<and> regime (refreshes example_format [calls_down] initial_dashboard) = ''risk_on''"
  by (simp add: fetchData_regime calls_down_def example_readings initial_dashboard_def)

section \<open>Isolation of the calls of a composite fetch\<close>

lemma promise_all_caught_isolated:
  "a < length ps \<Longrightarrow> a \<noteq> b \<Longrightarrow>
   promise_all_caught (ps[b := outcome]) ! a = promise_all_caught ps ! a"
  by (simp add: promise_all_caught_def)

lemma fetchReddit_fields:
  "rf_sentiment (fetchReddit s p t st) =
     (case s of Inr (Some r) \<Rightarrow> Some (res_data r) | _ \<Rightarrow> rf_sentiment st)"
  "rf_src (fetchReddit s p t st) = (case s of Inr (Some r) \<Rightarrow> res_source r | _ \<Rightarrow> rf_src st)"
  "rf_posts (fetchReddit s p t st) =
     (case p of Inr (Some r) \<Rightarrow> Some (res_data r) | _ \<Rightarrow> rf_posts st)"
  "rf_trending (fetchReddit s p t st) =
     (case t of Inr (Some r) \<Rightarrow> Some (res_data r) | _ \<Rightarrow> rf_trending st)"
  by (simp_all add: fetchReddit_def promise_all_caught_def catch_null_def Let_def
      split: sum.splits option.splits)

text \<open>
  Claim C9, as the code has it. In a composite fetch every call is caught on its own,
  so the composite always resolves with one slot per call, and the slot of a call
  \<open>a\<close> is the same whether another call \<open>b\<close> resolves or rejects. On the Reddit page
  each hook (sentiment with its source tag, posts, trending) is decided by its own
  call alone. On the dashboard the API status is decided by the health call alone and
  the source tag by the snapshot call alone; the yield curve and the metric cards are
  merged across calls on purpose, the yield curve from the snapshot and the
  yield-curve call and the cards from the snapshot and the rates call, and depend on
  no other call; and on a refresh whose snapshot has no missing price the regime label
  is decided by the inflation call alone. The sectors are not fetched.
\<close>

theorem composite_fetch_isolation:
  "(a < length ps \<and> a \<noteq> b \<longrightarrow>
      promise_all_caught (ps[b := outcome]) ! a = promise_all_caught ps ! a)
   \<and> length (promise_all_caught ps) = length ps
   \<and> rf_sentiment (fetchReddit s p t rs) = rf_sentiment (fetchReddit s p' t' rs)
   \<and> rf_src (fetchReddit s p t rs) = rf_src (fetchReddit s p' t' rs)
   \<and> rf_posts (fetchReddit s p t rs) = rf_posts (fetchReddit s' p t' rs)
   \<and> rf_trending (fetchReddit s p t rs) = rf_trending (fetchReddit s' p' t rs)
   \<and> apiStatus (fetchData nf
        (calls\<lparr>getMarketSnapshot := m', getFredYieldCurve := y', getFredRates := r',
               getFredInflation := i'\<rparr>) st)
       = apiStatus (fetchData nf calls st)
   \<and> dataSource (fetchData nf
        (calls\<lparr>getHealth := h', getFredYieldCurve := y', getFredRates := r',
               getFredInflation := i'\<rparr>) st)
       = dataSource (fetchData nf calls st)
   \<and> yieldCurve (fetchData nf
        (calls\<lparr>getHealth := h', getFredRates := r', getFredInflation := i'\<rparr>) st)
       = yieldCurve (fetchData nf calls st)
   \<and> metrics (fetchData nf
        (calls\<lparr>getHealth := h', getFredYieldCurve := y', getFredInflation := i'\<rparr>) st)
       = metrics (fetchData nf calls st)
   \<and> (\<not> missing_price (catch_null (getMarketSnapshot calls))
        \<and> \<not> missing_price (catch_null m') \<longrightarrow>
        regime (fetchData nf
          (calls\<lparr>getHealth := h', getMarketSnapshot := m', getFredYieldCurve := y',
                 getFredRates := r'\<rparr>) st)
         = regime (fetchData nf calls st))
   \<and> sectors (fetchData nf calls st) = sectors st"
proof -
  have slots: "a < length ps \<and> a \<noteq> b \<longrightarrow>
      promise_all_caught (ps[b := outcome]) ! a = promise_all_caught ps ! a"
    by (simp add: promise_all_caught_isolated)
  have len: "length (promise_all_caught ps) = length ps"
    by (simp add: promise_all_caught_def)
  have reddit:
    "rf_sentiment (fetchReddit s p t rs) = rf_sentiment (fetchReddit s p' t' rs)"
    "rf_src (fetchReddit s p t rs) = rf_src (fetchReddit s p' t' rs)"
    "rf_posts (fetchReddit s p t rs) = rf_posts (fetchReddit s' p t' rs)"
    "rf_trending (fetchReddit s p t rs) = rf_trending (fetchReddit s' p' t rs)"
    by (simp_all add: fetchReddit_fields)
  have api: "apiStatus (fetchData nf
        (calls\<lparr>getMarketSnapshot := m', getFredYieldCurve := y', getFredRates := r',
               getFredInflation := i'\<rparr>) st)
       = apiStatus (fetchData nf calls st)"
    by (simp add: fetchData_apiStatus)
  have tag: "dataSource (fetchData nf
        (calls\<lparr>getHealth := h', getFredYieldCurve := y', getFredRates := r',
               getFredInflation := i'\<rparr>) st)
       = dataSource (fetchData nf calls st)"
    by (simp add: fetchData_dataSource)
  have curve: "yieldCurve (fetchData nf
        (calls\<lparr>getHealth := h', getFredRates := r', getFredInflation := i'\<rparr>) st)
       = yieldCurve (fetchData nf calls st)"
    by (rule fetchData_yieldCurve) simp_all
  have cards: "metrics (fetchData nf
        (calls\<lparr>getHealth := h', getFredYieldCurve := y', getFredInflation := i'\<rparr>) st)
       = metrics (fetchData nf calls st)"
    by (rule fetchData_metrics) simp_all
  have label: "\<not> missing_price (catch_null (getMarketSnapshot calls))
        \<and> \<not> missing_price (catch_null m') \<longrightarrow>
        regime (fetchData nf
          (calls\<lparr>getHealth := h', getMarketSnapshot := m', getFredYieldCurve := y',
                 getFredRates := r'\<rparr>) st)
         = regime (fetchData nf calls st)"
    by (simp add: fetchData_regime)
  show ?thesis
    using slots len reddit api tag curve cards label fetchData_frame(1) [of nf calls st]
    by blast
qed

text \<open>
  Three calls of which the second rejects or resolves: the first slot is the same. On
  the Reddit page the posts are kept when only the sentiment call fails. On the
  dashboard a reading of 3.2 gives the same label whether the snapshot call rejects or
  delivers the snapshot with its prices.
\<close>

theorem composite_fetch_isolation_witness:
  "promise_all_caught [Inr (1::nat), Inl ''timeout'', Inr 3] ! 0
     = promise_all_caught [Inr (1::nat), Inr 2, Inr 3 :: string + nat] ! 0
   \<and> rf_posts (fetchReddit (Inl ''timeout'')
        (Inr (Some \<lparr>res_data = (7::nat), res_source = ''live''\<rparr>)) (Inl ''timeout'')
        \<lparr>rf_sentiment = None, rf_posts = None, rf_trending = None, rf_src = [],
         rf_loading = True\<rparr>)
     = rf_posts (fetchReddit (Inr (Some \<lparr>res_data = 5, res_source = ''live''\<rparr>))
        (Inr (Some \<lparr>res_data = (7::nat), res_source = ''live''\<rparr>)) (Inl ''timeout'')
        \<lparr>rf_sentiment = None, rf_posts = None, rf_trending = None, rf_src = [],
         rf_loading = True\<rparr>)
   \<and> regime (fetchData example_format
        (calls_down\<lparr>getMarketSnapshot := Inr (Some (example_snapshot (Some 5924.02))),
                    getFredInflation := Inr (Some (example_inflation 3.2))\<rparr>)
        initial_dashboard)
     = regime (fetchData example_format
        (calls_down\<lparr>getFredInflation := Inr (Some (example_inflation 3.2))\<rparr>)
        initial_dashboard)"
proof -
  let ?calls = "calls_down\<lparr>getFredInflation := Inr (Some (example_inflation 3.2))\<rparr>"
  let ?m = "Inr (Some (example_snapshot (Some 5924.02))) :: axios_error + snapshot_response option"
  note iso = composite_fetch_isolation
      [where a = 0 and ps = "[Inr (1::nat), Inr 2, Inr 3 :: string + nat]" and b = 1
         and outcome = "Inl ''timeout''"
         and s = "Inl ''timeout''" and s' = "Inr (Some \<lparr>res_data = 5, res_source = ''live''\<rparr>)"
         and p = "Inr (Some \<lparr>res_data = (7::nat), res_source = ''live''\<rparr>)"
         and t = "Inl ''timeout''" and t' = "Inl ''timeout''"
         and p' = "Inl ''timeout''"
         and rs = "\<lparr>rf_sentiment = None, rf_posts = None, rf_trending = None, rf_src = [],
            rf_loading = True\<rparr>"
         and nf = example_format and calls = ?calls and st = initial_dashboard
         and h' = "Inl NetworkError" and m' = ?m and y' = "Inl NetworkError"
         and r' = "Inl NetworkError" and i' = "Inl NetworkError"]
  have distinct_calls:
    "(0::nat) < length [Inr (1::nat), Inr 2, Inr 3 :: string + nat] \<and> (0::nat) \<noteq> 1"
    by simp
  have upd: "[Inr (1::nat), Inr 2, Inr 3 :: string + nat][1 := Inl ''timeout'']
      = [Inr 1, Inl ''timeout'', Inr 3]"
    by simp
  have priced: "\<not> missing_price (catch_null (getMarketSnapshot ?calls))
      \<and> \<not> missing_price (catch_null ?m)"
    by (simp add: calls_down_def example_readings)
  have same: "?calls\<lparr>getHealth := Inl NetworkError, getMarketSnapshot := ?m,
      getFredYieldCurve := Inl NetworkError, getFredRates := Inl NetworkError\<rparr>
      = calls_down\<lparr>getMarketSnapshot := ?m,
          getFredInflation := Inr (Some (example_inflation 3.2))\<rparr>"
    by (simp add: calls_down_def)
  have "promise_all_caught ([Inr (1::nat), Inr 2, Inr 3][1 := Inl ''timeout'']) ! 0
      = promise_all_caught [Inr (1::nat), Inr 2, Inr 3 :: string + nat] ! 0"
    using iso distinct_calls by blast
  moreover have "rf_posts (fetchReddit (Inl ''timeout'')
        (Inr (Some \<lparr>res_data = (7::nat), res_source = ''live''\<rparr>)) (Inl ''timeout'')
        \<lparr>rf_sentiment = None, rf_posts = None, rf_trending = None, rf_src = [],
         rf_loading = True\<rparr>)
     = rf_posts (fetchReddit (Inr (Some \<lparr>res_data = 5, res_source = ''live''\<rparr>))
        (Inr (Some \<lparr>res_data = (7::nat), res_source = ''live''\<rparr>)) (Inl ''timeout'')
        \<lparr>rf_sentiment = None, rf_posts = None, rf_trending = None, rf_src = [],
         rf_loading = True\<rparr>)"
    using iso by blast
  moreover have "regime (fetchData example_format
        (?calls\<lparr>getHealth := Inl NetworkError, getMarketSnapshot := ?m,
           getFredYieldCurve := Inl NetworkError, getFredRates := Inl NetworkError\<rparr>)
        initial_dashboard)
     = regime (fetchData example_format ?calls initial_dashboard)"
    using iso priced by blast
  ultimately show ?thesis
    unfolding upd same by blast
qed

text \<open>
  The claim as stated has the result for a domain identical whether the fetch of
  another succeeds or fails. On the dashboard the yield-curve call and the rates call
  are rejected in both of two refreshes, after a refresh in which they delivered; what
  the page then holds for the yield curve and for the 10Y rate depends on the snapshot
  call: when it is rejected too, the values of FRED stay in place; when it delivers,
  the yield curve is that of the snapshot and the 10Y card is back at the canned
  \<open>4.28\<close>.
\<close>

theorem dashboard_merge_counterexample:
  "yieldCurve (refreshes example_format
      [calls_down\<lparr>getFredYieldCurve := Inr (Some example_fred_curve),
                   getFredRates := Inr (Some example_rates)\<rparr>,
       calls_down]
      initial_dashboard)
     = [\<lparr>maturity = ''FF'', yield = 5.25\<rparr>, \<lparr>maturity = ''2Y'', yield = 4.3\<rparr>,
        \<lparr>maturity = ''10Y'', yield = 4.4\<rparr>, \<lparr>maturity = ''30Y'', yield = 4.6\<rparr>]
   \<and> yieldCurve (refreshes example_format
      [calls_down\<lparr>getFredYieldCurve := Inr (Some example_fred_curve),
                   getFredRates := Inr (Some example_rates)\<rparr>,
       calls_down\<lparr>getMarketSnapshot := Inr (Some (example_snapshot (Some 5924.02)))\<rparr>]
      initial_dashboard)
     = [\<lparr>maturity = ''FF'', yield = 5.33\<rparr>, \<lparr>maturity = ''2Y'', yield = 4.26\<rparr>,
        \<lparr>maturity = ''10Y'', yield = 4.28\<rparr>, \<lparr>maturity = ''30Y'', yield = 4.51\<rparr>]
   \<and> mvalue (tenYear (metrics (refreshes example_format
      [calls_down\<lparr>getFredYieldCurve := Inr (Some example_fred_curve),
                   getFredRates := Inr (Some example_rates)\<rparr>,
       calls_down]
      initial_dashboard))) = ''4.50''
   \<and> mvalue (tenYear (metrics (refreshes example_format
      [calls_down\<lparr>getFredYieldCurve := Inr (Some example_fred_curve),
                   getFredRates := Inr (Some example_rates)\<rparr>,
       calls_down\<lparr>getMarketSnapshot := Inr (Some (example_snapshot (Some 5924.02)))\<rparr>]
      initial_dashboard))) = ''4.28''"
  by (simp add: fetchData_def Let_def try_body_def health_block_def snapshot_block_def
      new_metrics_def with_spx_def with_vix_def with_dxy_def with_btc_def with_gold_def
      formatPrice_def fred_yield_block_def rates_block_def regime_block_def opt_data_def
      set_curve_def snapshot_curve_def fred_curve_def curve_points_def
      List.map_filter_simps catch_null_def calls_down_def example_snapshot_def
      example_fred_curve_def example_rates_def example_format_def initial_dashboard_def
      fallbackMetrics_def fallbackYieldCurve_def)

section \<open>The Aggregator: fallback, cache and freshness\<close>

lemma mock_provider_valid:
  "schema_valid cfg d (mock_provider cfg d) \<and> fully_populated (mock_provider cfg d)"
  by (simp add: schema_valid_def fully_populated_def mock_provider_def list_all_iff comp_def)

lemma fetch_domain_miss_all_failed:
  "cache_get (cache st) d now = None \<Longrightarrow> entire_fetch_fails cfg live now d \<Longrightarrow>
   fetch_domain cfg live SourceLive d now st =
     (\<lparr>domain = d, origin = LiveDegradedToMock, fetched_at = now,
       payload = mock_provider cfg d, partial = False\<rparr>,
      st\<lparr>live_calls := live_calls st @ [(d, now)]\<rparr>)"
  by (simp add: fetch_domain_def entire_fetch_fails_def Let_def)

lemma fetch_domain_miss_success:
  "cache_get (cache st) d now = None \<Longrightarrow> \<not> entire_fetch_fails cfg live now d \<Longrightarrow>
   fetch_domain cfg live SourceLive d now st =
     (\<lparr>domain = d, origin = Live, fetched_at = now,
       payload = succeeded (live_fetch cfg live now d),
       partial = some_failed (live_fetch cfg live now d)\<rparr>,
      st\<lparr>live_calls := live_calls st @ [(d, now)],
         cache := (cache st)(d \<mapsto>
           (\<lparr>domain = d, origin = Live, fetched_at = now,
             payload = succeeded (live_fetch cfg live now d),
             partial = some_failed (live_fetch cfg live now d)\<rparr>, now + ttl cfg d))\<rparr>)"
  by (simp add: fetch_domain_def entire_fetch_fails_def Let_def cache_put_def)

lemma fetch_domain_hit:
  "cache_get (cache st) d now = Some snap \<Longrightarrow>
   fetch_domain cfg live SourceLive d now st = (snap, st)"
  by (simp add: fetch_domain_def)

lemma cache_get_Some:
  "cache_get c key now = Some v \<longleftrightarrow>
     (\<exists>expires_at. c key = Some (v, expires_at) \<and> now < expires_at)"
  by (auto simp add: cache_get_def split: option.splits if_splits)

lemma cache_get_None:
  "cache_get c key now = None \<longleftrightarrow>
     c key = None \<or> (\<exists>v expires_at. c key = Some (v, expires_at) \<and> expires_at \<le> now)"
  by (auto simp add: cache_get_def split: option.splits if_splits)

lemma cache_get_None_later:
  "cache_get c key t1 = None \<Longrightarrow> t1 \<le> t2 \<Longrightarrow> cache_get c key t2 = None"
  by (auto simp add: cache_get_def split: option.splits if_splits)

lemma demo_miss: "cache_get (cache empty_state) d t = None"
  by (simp add: empty_state_def cache_get_def)

lemma demo_down: "entire_fetch_fails demo_config adapter_down t d"
  by (simp add: entire_fetch_fails_def all_failed_def live_fetch_def adapter_down_def
      list_all_iff)

lemma demo_recovering: "t \<le> 100 \<Longrightarrow> entire_fetch_fails demo_config adapter_recovering t d"
  by (simp add: entire_fetch_fails_def all_failed_def live_fetch_def adapter_recovering_def
      list_all_iff)

lemma demo_recovered: "100 < t \<Longrightarrow> \<not> entire_fetch_fails demo_config adapter_recovering t Equities"
  by (simp add: entire_fetch_fails_def all_failed_def live_fetch_def adapter_recovering_def
      demo_config_def)

lemma demo_spx_only: "\<not> entire_fetch_fails demo_config adapter_spx_only t Equities"
  by (simp add: entire_fetch_fails_def all_failed_def live_fetch_def adapter_spx_only_def
      demo_config_def)

text \<open>
  Claim C1. For every domain requested in live mode, when the live fetch is made (the
  cache has no fresh entry) and fails entirely, the Aggregator returns a Snapshot: its
  origin is live-degraded-to-mock, its payload is the one of the Mock Provider, which
  has the schema of the domain with every sub-item present, and it is not partial. No
  \<open>FetchError\<close> reaches the caller: the result is a Snapshot in every case. The tag
  that the README gives such a response, \<open>mock (fallback)\<close>, is the one the frontend
  badge shows as a fallback, apart from live and from mock.
\<close>

theorem entire_failure_falls_back_to_mock:
  assumes "cache_get (cache st) d now = None"
    and "entire_fetch_fails cfg live now d"
  shows "fst (fetch_domain cfg live SourceLive d now st) =
           \<lparr>domain = d, origin = LiveDegradedToMock, fetched_at = now,
            payload = mock_provider cfg d, partial = False\<rparr>
       \<and> schema_valid cfg d (payload (fst (fetch_domain cfg live SourceLive d now st)))
       \<and> fully_populated (payload (fst (fetch_domain cfg live SourceLive d now st)))
       \<and> SourceBadge (source_tag (origin (fst (fetch_domain cfg live SourceLive d now st))))
           = Some Orange"
  using assms
  by (simp add: fetch_domain_miss_all_failed mock_provider_valid SourceBadge_def)

text \<open>Both equity indices time out: the Snapshot holds the two canned values.\<close>

theorem entire_failure_falls_back_to_mock_witness:
  "fst (fetch_domain demo_config adapter_down SourceLive Equities 100 empty_state) =
     \<lparr>domain = Equities, origin = LiveDegradedToMock, fetched_at = 100,
      payload = [(''spx'', Some 0), (''nasdaq'', Some 0)], partial = False\<rparr>"
proof -
  have "fst (fetch_domain demo_config adapter_down SourceLive Equities 100 empty_state) =
     \<lparr>domain = Equities, origin = LiveDegradedToMock, fetched_at = 100,
      payload = mock_provider demo_config Equities, partial = False\<rparr>"
    using entire_failure_falls_back_to_mock
        [where st = empty_state and d = Equities and now = 100 and cfg = demo_config
           and live = adapter_down, OF demo_miss demo_down]
    by blast
  then show ?thesis
    by (simp add: mock_provider_def demo_config_def)
qed

text \<open>
  Claim C4. The Freshness Cache serves an entry only before its \<open>expires_at\<close>. When it
  has nothing fresh for a domain (a miss or an expired entry), a live-mode request
  issues a live fetch at that moment and returns a Snapshot fetched then. When a
  request has fetched a domain live and cached the result, a second request for the
  domain within the TTL of that entry is answered from the cache with the same
  Snapshot and leaves the state as it was: the two requests issue one live fetch. Two
  requests within the lifetime of an entry that is already there are both answered
  from the cache and issue no live fetch.
\<close>

theorem cache_serves_fresh_entries_only:
  "(cache_get c key t = Some v \<longrightarrow>
      (\<exists>expires_at. c key = Some (v, expires_at) \<and> t < expires_at))
   \<and> (cache st d = None \<or> (\<exists>old expires_at. cache st d = Some (old, expires_at) \<and> expires_at \<le> now)
        \<longrightarrow>
        live_calls (snd (fetch_domain cfg live SourceLive d now st)) = live_calls st @ [(d, now)]
        \<and> fetched_at (fst (fetch_domain cfg live SourceLive d now st)) = now)
   \<and> (cache_get (cache st) d ta = None \<and> \<not> entire_fetch_fails cfg live ta d
        \<and> ta \<le> tb \<and> tb < ta + ttl cfg d \<longrightarrow>
        fetch_domain cfg live SourceLive d tb (snd (fetch_domain cfg live SourceLive d ta st))
          = fetch_domain cfg live SourceLive d ta st
        \<and> live_calls (snd (fetch_domain cfg live SourceLive d ta st)) = live_calls st @ [(d, ta)])
   \<and> (cache st d = Some (snap, fresh_until) \<and> ta \<le> tb \<and> tb < fresh_until \<longrightarrow>
        fetch_domain cfg live SourceLive d ta st = (snap, st)
        \<and> fetch_domain cfg live SourceLive d tb st = (snap, st))"
proof -
  have A: "cache_get c key t = Some v \<longrightarrow>
      (\<exists>expires_at. c key = Some (v, expires_at) \<and> t < expires_at)"
    by (simp add: cache_get_Some)
  have B: "live_calls (snd (fetch_domain cfg live SourceLive d now st)) = live_calls st @ [(d, now)]
        \<and> fetched_at (fst (fetch_domain cfg live SourceLive d now st)) = now"
    if "cache st d = None \<or> (\<exists>old expires_at. cache st d = Some (old, expires_at) \<and> expires_at \<le> now)"
  proof -
    have "cache_get (cache st) d now = None"
      using that by (auto simp add: cache_get_None)
    then show ?thesis
      by (cases "entire_fetch_fails cfg live now d")
        (simp_all add: fetch_domain_miss_all_failed fetch_domain_miss_success)
  qed
  have C: "fetch_domain cfg live SourceLive d tb (snd (fetch_domain cfg live SourceLive d ta st))
          = fetch_domain cfg live SourceLive d ta st
        \<and> live_calls (snd (fetch_domain cfg live SourceLive d ta st)) = live_calls st @ [(d, ta)]"
    if "cache_get (cache st) d ta = None" "\<not> entire_fetch_fails cfg live ta d"
      "ta \<le> tb" "tb < ta + ttl cfg d"
  proof -
    let ?snap = "\<lparr>domain = d, origin = Live, fetched_at = ta,
             payload = succeeded (live_fetch cfg live ta d),
             partial = some_failed (live_fetch cfg live ta d)\<rparr>"
    let ?st1 = "st\<lparr>live_calls := live_calls st @ [(d, ta)],
         cache := (cache st)(d \<mapsto> (?snap, ta + ttl cfg d))\<rparr>"
    have first: "fetch_domain cfg live SourceLive d ta st = (?snap, ?st1)"
      using that(1,2) by (rule fetch_domain_miss_success)
    have "cache_get (cache ?st1) d tb = Some ?snap"
      using that(4) by (simp add: cache_get_def)
    then have "fetch_domain cfg live SourceLive d tb ?st1 = (?snap, ?st1)"
      by (rule fetch_domain_hit)
    then show ?thesis
      unfolding first by simp
  qed
  have D: "fetch_domain cfg live SourceLive d ta st = (snap, st)
        \<and> fetch_domain cfg live SourceLive d tb st = (snap, st)"
    if "cache st d = Some (snap, fresh_until)" "ta \<le> tb" "tb < fresh_until"
  proof -
    have "cache_get (cache st) d ta = Some snap" "cache_get (cache st) d tb = Some snap"
      using that by (simp_all add: cache_get_def)
    then show ?thesis
      by (simp add: fetch_domain_hit)
  qed
  show ?thesis
    using A B C D by blast
qed

text \<open>
  Equities fetched at time 100 with one of two indices delivered, asked again at 999,
  within the 900 s of the entry: one live fetch in all. An entry that expires at 1000
  is served at 999, and at 200 as well.
\<close>

theorem cache_serves_fresh_entries_only_witness:
  "fetch_domain demo_config adapter_spx_only SourceLive Equities 999
      (snd (fetch_domain demo_config adapter_spx_only SourceLive Equities 100 empty_state))
     = fetch_domain demo_config adapter_spx_only SourceLive Equities 100 empty_state
   \<and> live_calls (snd (fetch_domain demo_config adapter_spx_only SourceLive Equities 100
        empty_state)) = [(Equities, 100)]
   \<and> fetched_at (fst (fetch_domain demo_config adapter_spx_only SourceLive Equities 100
        empty_state)) = 100
   \<and> cache_get [Equities \<mapsto> (''entry'', 1000::nat)] Equities 999 = Some ''entry''
   \<and> fetch_domain demo_config adapter_spx_only SourceLive Equities 200
      (snd (fetch_domain demo_config adapter_spx_only SourceLive Equities 100 empty_state))
     = fetch_domain demo_config adapter_spx_only SourceLive Equities 100 empty_state"
proof -
  note warm = cache_serves_fresh_entries_only
      [where c = "[Equities \<mapsto> (''entry'', 1000::nat)]" and key = Equities and t = 999
         and v = "''entry''" and d = Equities and now = 100
         and st = "snd (fetch_domain demo_config adapter_spx_only SourceLive Equities 100
           empty_state)"
         and cfg = demo_config and live = adapter_spx_only and ta = 200 and tb = 999
         and snap = "fst (fetch_domain demo_config adapter_spx_only SourceLive Equities 100
           empty_state)" and fresh_until = 1000]
  have entry: "cache (snd (fetch_domain demo_config adapter_spx_only SourceLive Equities 100
        empty_state)) Equities
      = Some (fst (fetch_domain demo_config adapter_spx_only SourceLive Equities 100
          empty_state), 1000)
      \<and> (200::nat) \<le> 999 \<and> (999::nat) < 1000"
  proof -
    have "ttl demo_config Equities = 900"
      by (simp add: demo_config_def)
    then show ?thesis
      by (simp add: fetch_domain_miss_success [OF demo_miss demo_spx_only])
  qed
  have third: "fetch_domain demo_config adapter_spx_only SourceLive Equities 200
      (snd (fetch_domain demo_config adapter_spx_only SourceLive Equities 100 empty_state))
     = (fst (fetch_domain demo_config adapter_spx_only SourceLive Equities 100 empty_state),
        snd (fetch_domain demo_config adapter_spx_only SourceLive Equities 100 empty_state))"
    using warm entry by blast
  note fresh = cache_serves_fresh_entries_only
      [where c = "[Equities \<mapsto> (''entry'', 1000::nat)]" and key = Equities and t = 999
         and v = "''entry''" and st = empty_state and d = Equities and now = 100
         and cfg = demo_config and live = adapter_spx_only and ta = 100 and tb = 999
         and snap = "fst (fetch_domain demo_config adapter_spx_only SourceLive Equities 100
           empty_state)" and fresh_until = 1000]
  have pre: "cache_get (cache empty_state) Equities 100 = None
      \<and> \<not> entire_fetch_fails demo_config adapter_spx_only 100 Equities
      \<and> (100::nat) \<le> 999 \<and> 999 < 100 + ttl demo_config Equities"
    using demo_miss [of Equities 100] demo_spx_only [of 100] by (simp add: demo_config_def)
  have hit: "cache_get [Equities \<mapsto> (''entry'', 1000::nat)] Equities 999 = Some ''entry''"
    by (simp add: cache_get_def)
  have second: "fetch_domain demo_config adapter_spx_only SourceLive Equities 999
      (snd (fetch_domain demo_config adapter_spx_only SourceLive Equities 100 empty_state))
     = fetch_domain demo_config adapter_spx_only SourceLive Equities 100 empty_state
     \<and> live_calls (snd (fetch_domain demo_config adapter_spx_only SourceLive Equities 100
          empty_state)) = live_calls empty_state @ [(Equities, 100)]"
    using fresh pre by blast
  have miss: "cache empty_state Equities = None"
    by (simp add: empty_state_def)
  have first: "fetched_at (fst (fetch_domain demo_config adapter_spx_only SourceLive Equities 100
        empty_state)) = 100"
    using fresh miss by simp
  show ?thesis
    using second first hit third by (simp add: empty_state_def)
qed

text \<open>
  Claim C5. On a miss in live mode, a live result, full or partial, is written to the
  Freshness Cache under its domain, to expire after the TTL of the domain; a fallback
  Snapshot leaves the cache as it was. So the request that follows a fallback, at any
  later time, finds no fresh entry and fetches live again, and when that fetch
  delivers it returns a live Snapshot, not the fallback.
\<close>

theorem live_results_cached_fallback_not:
  assumes "cache_get (cache st) d now = None"
  shows "(\<not> entire_fetch_fails cfg live now d \<longrightarrow>
            origin (fst (fetch_domain cfg live SourceLive d now st)) = Live
          \<and> cache (snd (fetch_domain cfg live SourceLive d now st)) d
              = Some (fst (fetch_domain cfg live SourceLive d now st), now + ttl cfg d))
       \<and> (entire_fetch_fails cfg live now d \<longrightarrow>
            origin (fst (fetch_domain cfg live SourceLive d now st)) = LiveDegradedToMock
          \<and> cache (snd (fetch_domain cfg live SourceLive d now st)) = cache st
          \<and> (\<forall>t2 \<ge> now.
                live_calls (snd (fetch_domain cfg live SourceLive d t2
                    (snd (fetch_domain cfg live SourceLive d now st))))
                  = live_calls st @ [(d, now), (d, t2)]
              \<and> (\<not> entire_fetch_fails cfg live t2 d \<longrightarrow>
                   origin (fst (fetch_domain cfg live SourceLive d t2
                     (snd (fetch_domain cfg live SourceLive d now st)))) = Live)))"
proof -
  have ok: "origin (fst (fetch_domain cfg live SourceLive d now st)) = Live
          \<and> cache (snd (fetch_domain cfg live SourceLive d now st)) d
              = Some (fst (fetch_domain cfg live SourceLive d now st), now + ttl cfg d)"
    if "\<not> entire_fetch_fails cfg live now d"
    by (simp add: fetch_domain_miss_success [OF assms that])
  have fb: "origin (fst (fetch_domain cfg live SourceLive d now st)) = LiveDegradedToMock
          \<and> cache (snd (fetch_domain cfg live SourceLive d now st)) = cache st
          \<and> (\<forall>t2 \<ge> now.
                live_calls (snd (fetch_domain cfg live SourceLive d t2
                    (snd (fetch_domain cfg live SourceLive d now st))))
                  = live_calls st @ [(d, now), (d, t2)]
              \<and> (\<not> entire_fetch_fails cfg live t2 d \<longrightarrow>
                   origin (fst (fetch_domain cfg live SourceLive d t2
                     (snd (fetch_domain cfg live SourceLive d now st)))) = Live))"
    if f: "entire_fetch_fails cfg live now d"
  proof -
    let ?st1 = "st\<lparr>live_calls := live_calls st @ [(d, now)]\<rparr>"
    have first: "snd (fetch_domain cfg live SourceLive d now st) = ?st1"
      "origin (fst (fetch_domain cfg live SourceLive d now st)) = LiveDegradedToMock"
      by (simp_all add: fetch_domain_miss_all_failed [OF assms f])
    have again: "live_calls (snd (fetch_domain cfg live SourceLive d t2 ?st1))
                  = live_calls st @ [(d, now), (d, t2)]
              \<and> (\<not> entire_fetch_fails cfg live t2 d \<longrightarrow>
                   origin (fst (fetch_domain cfg live SourceLive d t2 ?st1)) = Live)"
      if "now \<le> t2" for t2
    proof -
      have miss: "cache_get (cache ?st1) d t2 = None"
        using cache_get_None_later [OF assms that] by simp
      show ?thesis
        by (cases "entire_fetch_fails cfg live t2 d")
          (simp_all add: fetch_domain_miss_all_failed [OF miss]
            fetch_domain_miss_success [OF miss])
    qed
    show ?thesis
      unfolding first using again by simp
  qed
  show ?thesis
    using ok fb by blast
qed

text \<open>
  Equities fall back at time 100 while the provider is down; at 101 the provider
  delivers one index again, and the request fetches live and returns a live Snapshot.
  A partial live result at time 100 is cached until 1000.
\<close>

theorem live_results_cached_fallback_not_witness:
  "origin (fst (fetch_domain demo_config adapter_recovering SourceLive Equities 100 empty_state))
     = LiveDegradedToMock
   \<and> cache (snd (fetch_domain demo_config adapter_recovering SourceLive Equities 100
        empty_state)) = cache empty_state
   \<and> live_calls (snd (fetch_domain demo_config adapter_recovering SourceLive Equities 101
        (snd (fetch_domain demo_config adapter_recovering SourceLive Equities 100 empty_state))))
     = [(Equities, 100), (Equities, 101)]
   \<and> origin (fst (fetch_domain demo_config adapter_recovering SourceLive Equities 101
        (snd (fetch_domain demo_config adapter_recovering SourceLive Equities 100 empty_state))))
     = Live
   \<and> origin (fst (fetch_domain demo_config adapter_spx_only SourceLive Equities 100
        empty_state)) = Live
   \<and> cache (snd (fetch_domain demo_config adapter_spx_only SourceLive Equities 100
        empty_state)) Equities
     = Some (fst (fetch_domain demo_config adapter_spx_only SourceLive Equities 100
        empty_state), 1000)"
proof -
  note fallback = live_results_cached_fallback_not
      [where st = empty_state and d = Equities and now = 100 and cfg = demo_config
         and live = adapter_recovering, OF demo_miss]
  note cached = live_results_cached_fallback_not
      [where st = empty_state and d = Equities and now = 100 and cfg = demo_config
         and live = adapter_spx_only, OF demo_miss]
  have down: "entire_fetch_fails demo_config adapter_recovering 100 Equities"
    by (simp add: demo_recovering)
  have up: "\<not> entire_fetch_fails demo_config adapter_recovering 101 Equities"
    by (simp add: demo_recovered)
  have a: "origin (fst (fetch_domain demo_config adapter_recovering SourceLive Equities 100
        empty_state)) = LiveDegradedToMock
      \<and> cache (snd (fetch_domain demo_config adapter_recovering SourceLive Equities 100
        empty_state)) = cache empty_state"
    using fallback down by blast
  have "\<forall>t2\<ge>100.
      live_calls (snd (fetch_domain demo_config adapter_recovering SourceLive Equities t2
        (snd (fetch_domain demo_config adapter_recovering SourceLive Equities 100 empty_state))))
        = live_calls empty_state @ [(Equities, 100), (Equities, t2)]
      \<and> (\<not> entire_fetch_fails demo_config adapter_recovering t2 Equities \<longrightarrow>
           origin (fst (fetch_domain demo_config adapter_recovering SourceLive Equities t2
             (snd (fetch_domain demo_config adapter_recovering SourceLive Equities 100
               empty_state)))) = Live)"
    using fallback down by blast
  then have b: "live_calls (snd (fetch_domain demo_config adapter_recovering SourceLive Equities 101
        (snd (fetch_domain demo_config adapter_recovering SourceLive Equities 100 empty_state))))
        = live_calls empty_state @ [(Equities, 100), (Equities, 101)]
      \<and> origin (fst (fetch_domain demo_config adapter_recovering SourceLive Equities 101
             (snd (fetch_domain demo_config adapter_recovering SourceLive Equities 100
               empty_state)))) = Live"
    using up by simp
  have c: "origin (fst (fetch_domain demo_config adapter_spx_only SourceLive Equities 100
        empty_state)) = Live
      \<and> cache (snd (fetch_domain demo_config adapter_spx_only SourceLive Equities 100
        empty_state)) Equities
        = Some (fst (fetch_domain demo_config adapter_spx_only SourceLive Equities 100
            empty_state), 100 + ttl demo_config Equities)"
    using cached demo_spx_only [of 100] by blast
  show ?thesis
    using a b c by (simp add: empty_state_def demo_config_def)
qed

end
